theory Spec2Isabelle
  imports Main
begin

section \<open>The authenticated API client of the gallery front end\<close>

text \<open>
  A shallow embedding of \<^verbatim>\<open>src/services/userAxiosInstance.ts\<close>,
  \<^verbatim>\<open>src/stores/userAuthStore.ts\<close> and \<^verbatim>\<open>src/services/userApi.ts\<close>.

  The TypeScript is asynchronous, but every function awaits each call before it goes on,
  so one logical request is a sequential program over the browser's state. That state is
  the record \<open>world\<close>; every function takes it and returns it updated. A promise
  that rejects (and a \<^verbatim>\<open>throw\<close>) is the value \<open>Inl error\<close>, a promise that
  fulfils is \<open>Inr value\<close>. What the code cannot decide itself (the server's answers
  and the time they take, the token decoder of the jwt-decode package, the serialiser of
  the zustand persist middleware) is the record \<open>env\<close>, a parameter of every
  function.
\<close>

subsection \<open>Data\<close>

text \<open>\<^verbatim>\<open>IUser\<close> and \<^verbatim>\<open>IImageOrder\<close> of \<^verbatim>\<open>src/types/basictype.ts\<close>.\<close>

datatype IUser = IUser (username: "string option") (user_email: string)
  (phoneNumber: "string option") (password: string)

datatype IImageOrder = IImageOrder (image_id: string) (image_order: int)

type_synonym FormData = "(string \<times> string) list"

datatype http_method = GET | POST | DELETE

text \<open>The second argument of \<^verbatim>\<open>axios.post\<close>, one constructor per shape the code sends.\<close>

datatype request_data =
    NoData
  | EmptyObject
  | UserData IUser
  | VerifyData string string
  | EmailData string
  | ResetData string string string
  | OrderData "IImageOrder list"
  | Form FormData

text \<open>
  The axios request configuration. \<open>retry\<close> is the \<^verbatim>\<open>_retry\<close> property the
  response interceptor adds; \<open>Authorization\<close> is \<^verbatim>\<open>headers.Authorization\<close>.
\<close>

record config =
  meth :: http_method
  baseURL :: string
  url :: string
  Authorization :: "string option"
  withCredentials :: bool
  timeout :: nat
  body :: request_data
  retry :: bool

text \<open>
  A response body. The code reads \<^verbatim>\<open>success\<close> and \<^verbatim>\<open>accessToken\<close> (the
  declared \<^verbatim>\<open>RefreshResponse\<close>), \<^verbatim>\<open>message\<close>, and \<^verbatim>\<open>data.accessToken\<close> and
  \<^verbatim>\<open>data.email\<close>; \<open>None\<close> is a property that is absent (\<^verbatim>\<open>undefined\<close>).
  Everything else a body holds is the uninterpreted string \<open>p_other\<close>.
\<close>

record payload =
  p_accessToken :: "string option"
  p_email :: "string option"
  p_other :: string

record response_data =
  success :: bool
  accessToken :: "string option"
  message :: "string option"
  payload :: "payload option"

record response =
  status :: nat
  rdata :: response_data

text \<open>
  What a promise rejects with: an axios error (with the configuration it was sent with,
  and the response when the server answered), a plain \<^verbatim>\<open>Error\<close> with its message, or
  the \<^verbatim>\<open>TypeError\<close> of a property read on \<^verbatim>\<open>undefined\<close>.
\<close>

datatype js_error =
    AxiosError config "response option"
  | Error string
  | TypeError

text \<open>What the network gives back for one request: a response, or nothing (network
  failure, timeout).\<close>

datatype outcome = Answered response | NoAnswer

text \<open>The session of the store: \<^verbatim>\<open>AuthState\<close> without its two functions.\<close>

record session =
  isAuthenticated :: bool
  email :: "string option"

text \<open>The decoded token payload, \<^verbatim>\<open>{ exp: number }\<close>; \<open>None\<close> is a payload with
  no \<^verbatim>\<open>exp\<close>.\<close>

record jwt_payload =
  exp :: "int option"

text \<open>
  The environment. \<open>net\<close> is the network and the server behind it: the answer to a
  request may depend on every request sent before, and comes with the milliseconds the
  exchange took. \<open>jwtDecode\<close> is the decoder of the jwt-decode package (\<open>None\<close>: it
  throws). \<open>stringify\<close> is the serialiser of the persist middleware.
  \<open>VITE_API_URI\<close> is the build-time variable.
\<close>

record env =
  net :: "config list \<Rightarrow> config \<Rightarrow> nat \<times> outcome"
  jwtDecode :: "string \<Rightarrow> jwt_payload option"
  stringify :: "session \<Rightarrow> string"
  VITE_API_URI :: "string option"

text \<open>
  The browser. \<open>localStorage\<close> is the key-value store; \<open>store\<close> the state of
  \<^verbatim>\<open>useAuthStore\<close>; \<open>has_window\<close> the truth of
  \<^verbatim>\<open>typeof window !== 'undefined'\<close>; \<open>href\<close> the assignments to
  \<^verbatim>\<open>window.location.href\<close>, \<open>toasts\<close> the calls of \<^verbatim>\<open>toast.error\<close>,
  \<open>console\<close> the lines logged and \<open>sent\<close> the requests put on the network, each in
  order; \<open>clock\<close> is \<^verbatim>\<open>Date.now()\<close>.
\<close>

record world =
  localStorage :: "string \<rightharpoonup> string"
  store :: session
  has_window :: bool
  href :: "string list"
  toasts :: "string option list"
  console :: "string list"
  sent :: "config list"
  clock :: nat

subsection \<open>JavaScript helpers\<close>

text \<open>Truthiness of a value that is a string or \<^verbatim>\<open>undefined\<close>/\<^verbatim>\<open>null\<close>.\<close>

definition truthy :: "string option \<Rightarrow> bool" where
  "truthy v = (case v of None \<Rightarrow> False | Some s \<Rightarrow> s \<noteq> [])"

definition getItem :: "string \<Rightarrow> world \<Rightarrow> string option" where
  "getItem k w = localStorage w k"

definition setItem :: "string \<Rightarrow> string \<Rightarrow> world \<Rightarrow> world" where
  "setItem k v w = w\<lparr>localStorage := (localStorage w)(k \<mapsto> v)\<rparr>"

definition removeItem :: "string \<Rightarrow> world \<Rightarrow> world" where
  "removeItem k w = w\<lparr>localStorage := (localStorage w)(k := None)\<rparr>"

definition console_log :: "string \<Rightarrow> world \<Rightarrow> world" where
  "console_log line w = w\<lparr>console := console w @ [line]\<rparr>"

definition toast_error :: "string option \<Rightarrow> world \<Rightarrow> world" where
  "toast_error msg w = w\<lparr>toasts := toasts w @ [msg]\<rparr>"

text \<open>\<^verbatim>\<open>if (typeof window !== 'undefined') { window.location.href = path }\<close>\<close>

definition redirect :: "string \<Rightarrow> world \<Rightarrow> world" where
  "redirect path w = (if has_window w then w\<lparr>href := href w @ [path]\<rparr> else w)"

definition API_URI :: "env \<Rightarrow> string" where
  "API_URI e = (if truthy (VITE_API_URI e) then the (VITE_API_URI e)
                else ''http://localhost:5000/api/user'')"

subsection \<open>The network\<close>

text \<open>
  One exchange: the request is put on the network, the clock advances by the time the
  exchange took. axios fulfils with a response whose status is 2xx and rejects with an
  \<^verbatim>\<open>AxiosError\<close> otherwise (it carries the response when there is one).
\<close>

definition dispatchRequest :: "env \<Rightarrow> config \<Rightarrow> world \<Rightarrow> (js_error + response) \<times> world" where
  "dispatchRequest e c w =
     (let (elapsed, out) = net e (sent w) c;
          w' = w\<lparr>sent := sent w @ [c], clock := clock w + elapsed\<rparr>
      in case out of
           NoAnswer \<Rightarrow> (Inl (AxiosError c None), w')
         | Answered r \<Rightarrow>
             if 200 \<le> status r \<and> status r < 300 then (Inr r, w')
             else (Inl (AxiosError c (Some r)), w'))"

subsection \<open>The store: \<^verbatim>\<open>setAuth\<close>\<close>

text \<open>
  The store is built by \<^verbatim>\<open>persist(..., { name: 'auth-store' })\<close>: the middleware
  wraps \<^verbatim>\<open>set\<close>, so every \<^verbatim>\<open>set\<close> merges the update into the state and then
  writes the serialised state under the key \<^verbatim>\<open>auth-store\<close>.
\<close>

definition set_state :: "env \<Rightarrow> (session \<Rightarrow> session) \<Rightarrow> world \<Rightarrow> world" where
  "set_state e updates w =
     (let s = updates (store w)
      in setItem ''auth-store'' (stringify e s) (w\<lparr>store := s\<rparr>))"

definition setAuth :: "env \<Rightarrow> bool \<Rightarrow> string option \<Rightarrow> world \<Rightarrow> world" where
  "setAuth e auth em w =
     (if truthy em
      then set_state e (\<lambda>s. s\<lparr>isAuthenticated := auth, email := em\<rparr>)
             (setItem ''userEmail'' (the em) w)
      else set_state e (\<lambda>s. s\<lparr>isAuthenticated := auth\<rparr>) w)"

subsection \<open>\<^verbatim>\<open>isTokenExpired\<close> and \<^verbatim>\<open>refreshAccessToken\<close>\<close>

text \<open>
  \<^verbatim>\<open>decodedToken.exp <= Date.now() / 1000\<close>. The clock is in whole milliseconds and
  \<open>exp\<close> in whole seconds, so the comparison is written without the division, as
  \<open>1000 * exp \<le> now\<close>; with no \<^verbatim>\<open>exp\<close> it compares \<^verbatim>\<open>undefined\<close>,
  which is false.
\<close>

definition isTokenExpired :: "env \<Rightarrow> string \<Rightarrow> world \<Rightarrow> bool \<times> world" where
  "isTokenExpired e token w =
     (case jwtDecode e token of
        None \<Rightarrow> (True, console_log ''Error decoding token:'' w)
      | Some decodedToken \<Rightarrow>
          (case exp decodedToken of
             None \<Rightarrow> (False, w)
           | Some x \<Rightarrow> (1000 * x \<le> int (clock w), w)))"

definition refresh_request :: "env \<Rightarrow> config" where
  "refresh_request e =
     \<lparr>meth = POST, baseURL = [], url = API_URI e @ ''/refresh-token'',
      Authorization = None, withCredentials = True, timeout = 0,
      body = EmptyObject, retry = False\<rparr>"

text \<open>The body of the \<^verbatim>\<open>try\<close> block of \<^verbatim>\<open>refreshAccessToken\<close>.\<close>

definition refresh_attempt :: "env \<Rightarrow> world \<Rightarrow> (js_error + string option) \<times> world" where
  "refresh_attempt e w =
     (case dispatchRequest e (refresh_request e) w of
        (Inl err, w1) \<Rightarrow> (Inl err, w1)
      | (Inr resp, w1) \<Rightarrow>
          if success (rdata resp) \<and> truthy (accessToken (rdata resp)) then
            (let newAccessToken = the (accessToken (rdata resp));
                 w2 = (if has_window w1 then setItem ''accessToken'' newAccessToken w1 else w1);
                 w3 = setAuth e True None w2
             in (Inr (Some newAccessToken), w3))
          else (Inr None, w1))"

text \<open>The whole function: the \<^verbatim>\<open>catch\<close> logs the error and returns \<^verbatim>\<open>null\<close>.\<close>

definition refreshAccessToken :: "env \<Rightarrow> world \<Rightarrow> (js_error + string option) \<times> world" where
  "refreshAccessToken e w =
     (case refresh_attempt e w of
        (Inl err, w1) \<Rightarrow> (Inr None, console_log ''Error refreshing token:'' w1)
      | (Inr r, w1) \<Rightarrow> (Inr r, w1))"

subsection \<open>The request interceptor\<close>

definition request_interceptor :: "env \<Rightarrow> config \<Rightarrow> world \<Rightarrow> (js_error + config) \<times> world" where
  "request_interceptor e c w =
     (let token = getItem ''accessToken'' w in
      if truthy token then
        (let (expired, w1) = isTokenExpired e (the token) w in
         if expired then
           (case refreshAccessToken e w1 of
              (Inr newToken, w2) \<Rightarrow>
                if truthy newToken then
                  (Inr (c\<lparr>Authorization := Some (''Bearer '' @ the newToken)\<rparr>), w2)
                else
                  (Inl (Error ''Session expired. Please login again.''),
                   redirect ''/login'' (removeItem ''accessToken'' (setAuth e False None w2)))
            | (Inl err, w2) \<Rightarrow>
                (Inl (Error ''Session expired. Please login again.''),
                 redirect ''/login'' (removeItem ''accessToken'' (setAuth e False None w2))))
         else (Inr (c\<lparr>Authorization := Some (''Bearer '' @ the token)\<rparr>), w1))
      else (Inr c, w))"

lemma request_interceptor_rejects_Error:
  "request_interceptor e c w = (Inl err, w') \<Longrightarrow> err = Error ''Session expired. Please login again.''"
  by (auto simp: request_interceptor_def Let_def split: if_splits prod.splits sum.splits)

lemma request_interceptor_keeps_retry:
  "request_interceptor e c w = (Inr c', w') \<Longrightarrow> retry c' = retry c"
  by (auto simp: request_interceptor_def Let_def split: if_splits prod.splits sum.splits)

lemma dispatchRequest_rejects_with_config:
  "dispatchRequest e c w = (Inl err, w') \<Longrightarrow> \<exists>r. err = AxiosError c r"
  by (auto simp: dispatchRequest_def Let_def split: if_splits prod.splits outcome.splits)

subsection \<open>The client: request interceptor, network, response interceptor\<close>

text \<open>
  \<^verbatim>\<open>apiClient(config)\<close> runs the chain axios builds: the request interceptor, the
  network exchange, then the response interceptor, whose first function returns the
  response as it is and whose second function, \<open>response_onRejected\<close>, receives every
  rejection of the chain before it (a rejection of the request interceptor skips the
  exchange). \<open>response_onRejected\<close> calls \<^verbatim>\<open>apiClient(originalRequest)\<close> again, so
  the two are mutually recursive. axios merges the configuration it is given with the
  defaults of the instance property by property, so the \<^verbatim>\<open>_retry\<close> flag set on
  \<^verbatim>\<open>originalRequest\<close> is on the configuration of the resent request, and on the error
  when that request fails. The \<^verbatim>\<open>return apiClient(originalRequest)\<close> is not awaited,
  so a rejection of the resent request is not caught by the \<^verbatim>\<open>catch\<close> around it: it
  is what the caller gets.
\<close>

function apiClient :: "env \<Rightarrow> config \<Rightarrow> world \<Rightarrow> (js_error + response) \<times> world"
  and response_onRejected :: "env \<Rightarrow> js_error \<Rightarrow> world \<Rightarrow> (js_error + response) \<times> world"
where
  "apiClient e c w =
     (case request_interceptor e c w of
        (Inl error, w1) \<Rightarrow> response_onRejected e error w1
      | (Inr c1, w1) \<Rightarrow>
          (case dispatchRequest e c1 w1 of
             (Inl error, w2) \<Rightarrow> response_onRejected e error w2
           | (Inr r, w2) \<Rightarrow> (Inr r, w2)))"
| "response_onRejected e error w =
     (case error of
        AxiosError originalRequest (Some r) \<Rightarrow>
          if status r = 401 \<and> \<not> retry originalRequest then
            (case refreshAccessToken e w of
               (Inr newToken, w1) \<Rightarrow>
                 if truthy newToken then
                   apiClient e
                     (originalRequest\<lparr>retry := True,
                        Authorization := Some (''Bearer '' @ the newToken)\<rparr>) w1
                 else
                   (Inl (AxiosError (originalRequest\<lparr>retry := True\<rparr>) (Some r)),
                    redirect ''/login''
                      (toast_error (Some ''Session expired. Please login again.'')
                        (setAuth e False None (removeItem ''accessToken'' w1))))
             | (Inl refreshError, w1) \<Rightarrow>
                 (Inl (AxiosError (originalRequest\<lparr>retry := True\<rparr>) (Some r)),
                  redirect ''/login''
                    (toast_error (Some ''Session expired. Please login again.'')
                      (setAuth e False None (removeItem ''accessToken''
                        (console_log ''Token refresh failed:'' w1))))))
          else (Inl error, w)
      | _ \<Rightarrow> (Inl error, w))"
  by pat_completeness auto

termination apiClient
proof (relation "measure (\<lambda>x. case x of
      Inl (e, c, w) \<Rightarrow> (if retry c then 1 else 3)
    | Inr (e, err, w) \<Rightarrow> (case err of
         AxiosError c (Some r) \<Rightarrow> (if status r = 401 \<and> \<not> retry c then 2 else 0)
       | _ \<Rightarrow> 0))", goal_cases)
  case 1
  show ?case by simp
next
  case (2 e c w x y a)
  then have "a = Error ''Session expired. Please login again.''"
    using request_interceptor_rejects_Error [of e c w a y] by simp
  then show ?case by simp
next
  case (3 e c w x y b xa ya a)
  then have "retry b = retry c"
    using request_interceptor_keeps_retry [of e c w b y] by simp
  moreover from 3 obtain r where "a = AxiosError b r"
    using dispatchRequest_rejects_with_config [of e b y a ya] by auto
  ultimately show ?case by (simp split: option.split)
next
  case 4
  then show ?case by simp
qed

declare apiClient.simps [simp del] response_onRejected.simps [simp del]

text \<open>
  The configuration \<^verbatim>\<open>apiClient.post(url, data)\<close> and its siblings build: the
  defaults of \<^verbatim>\<open>axios.create\<close> and the call's own method, path and data.
\<close>

definition instance_config :: "env \<Rightarrow> http_method \<Rightarrow> string \<Rightarrow> request_data \<Rightarrow> config" where
  "instance_config e m u d =
     \<lparr>meth = m, baseURL = API_URI e, url = u, Authorization = None,
      withCredentials = True, timeout = 10000, body = d, retry = False\<rparr>"

text \<open>\<^verbatim>\<open>axios.post(url, data, { withCredentials })\<close> on the default instance, which has
  no interceptor.\<close>

definition axios_post :: "env \<Rightarrow> string \<Rightarrow> request_data \<Rightarrow> bool \<Rightarrow> world \<Rightarrow> (js_error + response) \<times> world" where
  "axios_post e u d cred w =
     dispatchRequest e
       \<lparr>meth = POST, baseURL = [], url = u, Authorization = None,
        withCredentials = cred, timeout = 0, body = d, retry = False\<rparr> w"

subsection \<open>The store: \<^verbatim>\<open>logout\<close>\<close>

definition logout :: "env \<Rightarrow> world \<Rightarrow> (js_error + unit) \<times> world" where
  "logout e w =
     (case apiClient e (instance_config e POST ''/logout'' NoData) w of
        (Inl err, w1) \<Rightarrow> (Inl err, w1)
      | (Inr r, w1) \<Rightarrow>
          (Inr (),
           set_state e (\<lambda>s. s\<lparr>isAuthenticated := False, email := None\<rparr>)
             (removeItem ''userEmail''
               (removeItem ''accessToken''
                 (removeItem ''auth-store'' w1)))))"

subsection \<open>The routes of \<^verbatim>\<open>App.tsx\<close>\<close>

datatype view = HomePage | SignupPage | Verification | Login | ForgotPassword | ResetPassword

definition routes :: "(string \<times> view) list" where
  "routes =
     [(''/'', HomePage),
      (''/signup'', SignupPage),
      (''/verify-cache/:email'', Verification),
      (''/signin'', Login),
      (''/forgot-password'', ForgotPassword),
      (''/reset-password/:email'', ResetPassword)]"

text \<open>
  A path matches a route segment by segment, a segment \<^verbatim>\<open>:name\<close> of the route
  matching any segment of the path. (The router compares letters without regard to
  case; here they are compared as they are.)
\<close>

fun split_slash :: "string \<Rightarrow> string list" where
  "split_slash [] = [[]]"
| "split_slash (c # cs) =
     (if c = CHR ''/'' then [] # split_slash cs
      else (case split_slash cs of [] \<Rightarrow> [[c]] | s # ss \<Rightarrow> (c # s) # ss))"

definition segments :: "string \<Rightarrow> string list" where
  "segments p = filter (\<lambda>s. s \<noteq> []) (split_slash p)"

definition match_segment :: "string \<Rightarrow> string \<Rightarrow> bool" where
  "match_segment pat seg = (case pat of c # cs \<Rightarrow> (if c = CHR '':'' then True else pat = seg) | [] \<Rightarrow> pat = seg)"

definition matchRoute :: "string \<Rightarrow> view option" where
  "matchRoute p =
     map_option snd
       (find (\<lambda>(pat, v). list_all2 match_segment (segments pat) (segments p)) routes)"

subsection \<open>The wrappers of \<^verbatim>\<open>userApi.ts\<close>\<close>

definition isAxiosError :: "js_error \<Rightarrow> bool" where
  "isAxiosError err = (case err of AxiosError c r \<Rightarrow> True | _ \<Rightarrow> False)"

text \<open>\<^verbatim>\<open>error.response?.data?.message\<close>\<close>

definition error_message :: "js_error \<Rightarrow> string option" where
  "error_message err = (case err of AxiosError c (Some r) \<Rightarrow> message (rdata r) | _ \<Rightarrow> None)"

definition handleAxiosError :: "js_error \<Rightarrow> world \<Rightarrow> world" where
  "handleAxiosError err w =
     (if isAxiosError err
      then toast_error (error_message err) (console_log ''Axios Error:'' w)
      else toast_error (Some ''Something went wrong. Please try again.'')
             (console_log ''Unexpected error:'' w))"

text \<open>
  Every wrapper returns \<^verbatim>\<open>response.data\<close>, or \<^verbatim>\<open>undefined\<close> (\<open>None\<close>) when its
  \<^verbatim>\<open>catch\<close> block ends without a \<^verbatim>\<open>return\<close>.
\<close>

definition Signup :: "env \<Rightarrow> IUser \<Rightarrow> world \<Rightarrow> (js_error + response_data option) \<times> world" where
  "Signup e userData w =
     (case axios_post e (API_URI e @ ''/signup'') (UserData userData) True w of
        (Inr resp, w1) \<Rightarrow> (Inr (Some (rdata resp)), w1)
      | (Inl err, w1) \<Rightarrow> (Inr None, handleAxiosError err w1))"

definition VerifyCode :: "env \<Rightarrow> string \<Rightarrow> string \<Rightarrow> world \<Rightarrow> (js_error + response_data option) \<times> world" where
  "VerifyCode e em cacheCode w =
     (case axios_post e (API_URI e @ ''/verify-cache'') (VerifyData em cacheCode) False w of
        (Inr resp, w1) \<Rightarrow>
          (case payload (rdata resp) of
             None \<Rightarrow> (Inr None, handleAxiosError TypeError w1)
           | Some d \<Rightarrow>
               if truthy (p_accessToken d) then
                 (Inr (Some (rdata resp)),
                  setAuth e True (Some em) (setItem ''accessToken'' (the (p_accessToken d)) w1))
               else (Inr (Some (rdata resp)), w1))
      | (Inl err, w1) \<Rightarrow> (Inr None, handleAxiosError err w1))"

definition SignIn :: "env \<Rightarrow> IUser \<Rightarrow> world \<Rightarrow> (js_error + response_data option) \<times> world" where
  "SignIn e userData w =
     (case axios_post e (API_URI e @ ''/signin'') (UserData userData) True w of
        (Inr resp, w1) \<Rightarrow>
          (case payload (rdata resp) of
             None \<Rightarrow> (Inr None, handleAxiosError TypeError w1)
           | Some d \<Rightarrow>
               if truthy (p_accessToken d) then
                 (Inr (Some (rdata resp)),
                  setAuth e True (p_email d) (setItem ''accessToken'' (the (p_accessToken d)) w1))
               else (Inr (Some (rdata resp)), w1))
      | (Inl err, w1) \<Rightarrow> (Inr None, handleAxiosError err w1))"

definition forgotPassword :: "env \<Rightarrow> string \<Rightarrow> world \<Rightarrow> (js_error + response_data option) \<times> world" where
  "forgotPassword e em w =
     (case axios_post e (API_URI e @ ''/forgot-password'') (EmailData em) False w of
        (Inr resp, w1) \<Rightarrow> (Inr (Some (rdata resp)), w1)
      | (Inl err, w1) \<Rightarrow> (Inr None, handleAxiosError err w1))"

definition resetPassword :: "env \<Rightarrow> string \<Rightarrow> string \<Rightarrow> string \<Rightarrow> world \<Rightarrow> (js_error + response_data option) \<times> world" where
  "resetPassword e cacheCode pw em w =
     (case axios_post e (API_URI e @ ''/reset-password'') (ResetData cacheCode pw em) False w of
        (Inr resp, w1) \<Rightarrow> (Inr (Some (rdata resp)), w1)
      | (Inl err, w1) \<Rightarrow> (Inr None, handleAxiosError err w1))"

definition uploadImage :: "env \<Rightarrow> FormData \<Rightarrow> world \<Rightarrow> (js_error + response_data option) \<times> world" where
  "uploadImage e formData w =
     (case apiClient e (instance_config e POST ''/upload'' (Form formData)) w of
        (Inr resp, w1) \<Rightarrow> (Inr (Some (rdata resp)), w1)
      | (Inl err, w1) \<Rightarrow> (Inl err, handleAxiosError err w1))"

definition getImages :: "env \<Rightarrow> world \<Rightarrow> (js_error + response_data option) \<times> world" where
  "getImages e w =
     (case apiClient e (instance_config e GET ''/images'' NoData) w of
        (Inr resp, w1) \<Rightarrow> (Inr (Some (rdata resp)), w1)
      | (Inl err, w1) \<Rightarrow> (Inr None, handleAxiosError err w1))"

definition updateImageOrder :: "env \<Rightarrow> IImageOrder list \<Rightarrow> world \<Rightarrow> (js_error + response_data option) \<times> world" where
  "updateImageOrder e imageOrder w =
     (case apiClient e (instance_config e POST ''/change-order'' (OrderData imageOrder)) w of
        (Inr resp, w1) \<Rightarrow> (Inr (Some (rdata resp)), w1)
      | (Inl err, w1) \<Rightarrow> (Inr None, handleAxiosError err w1))"

definition deleteImage :: "env \<Rightarrow> string \<Rightarrow> world \<Rightarrow> (js_error + response_data option) \<times> world" where
  "deleteImage e ident w =
     (case apiClient e (instance_config e DELETE (''/delete-image/'' @ ident) NoData) w of
        (Inr resp, w1) \<Rightarrow> (Inr (Some (rdata resp)), w1)
      | (Inl err, w1) \<Rightarrow> (Inr None, handleAxiosError err w1))"

definition updateImage :: "env \<Rightarrow> string \<Rightarrow> FormData \<Rightarrow> world \<Rightarrow> (js_error + response_data option) \<times> world" where
  "updateImage e ident formData w =
     (case apiClient e (instance_config e POST (''/update-image/'' @ ident) (Form formData)) w of
        (Inr resp, w1) \<Rightarrow> (Inr (Some (rdata resp)), w1)
      | (Inl err, w1) \<Rightarrow> (Inr None, handleAxiosError err w1))"

subsection \<open>What a wrapper does with the outcome of its call\<close>

text \<open>
  \<open>swallowed call out\<close>: when the call rejected, the wrapper showed the notification
  and returned \<^verbatim>\<open>undefined\<close>; in no case did it throw. \<open>rethrown call out\<close>: when the
  call rejected, the wrapper showed the notification and threw the same error; when it
  fulfilled, the wrapper returned \<^verbatim>\<open>response.data\<close>. \<open>notification\<close> is the message
  \<^verbatim>\<open>handleAxiosError\<close> shows for an error.
\<close>

definition swallowed :: "(js_error + response) \<times> world \<Rightarrow> (js_error + response_data option) \<times> world \<Rightarrow> bool" where
  "swallowed call out =
     (case call of
        (Inl err, w1) \<Rightarrow> out = (Inr None, handleAxiosError err w1)
      | (Inr resp, w1) \<Rightarrow> (case fst out of Inl err \<Rightarrow> False | Inr v \<Rightarrow> True))"

definition rethrown :: "(js_error + response) \<times> world \<Rightarrow> (js_error + response_data option) \<times> world \<Rightarrow> bool" where
  "rethrown call out =
     (case call of
        (Inl err, w1) \<Rightarrow> out = (Inl err, handleAxiosError err w1)
      | (Inr resp, w1) \<Rightarrow> out = (Inr (Some (rdata resp)), w1))"

definition notification :: "js_error \<Rightarrow> string option" where
  "notification err =
     (if isAxiosError err then error_message err
      else Some ''Something went wrong. Please try again.'')"

subsection \<open>Concrete servers and browsers\<close>

text \<open>
  A server that answers the n-th request of a run with the n-th entry of a script (and
  not at all once the script is used up), each exchange taking 5 ms; a decoder that knows
  three tokens, \<^verbatim>\<open>fresh\<close> (\<open>exp\<close> = 2000 s), \<^verbatim>\<open>newer\<close> (\<open>exp\<close> = 3000 s) and
  \<^verbatim>\<open>stale\<close> (\<open>exp\<close> = 990 s), and throws on every other string; a browser whose
  clock reads 1000 s, holding a session for \<^verbatim>\<open>a@b.c\<close> and the given token; a
  401 response; the requests \<^verbatim>\<open>apiClient.get('/images')\<close> and
  \<^verbatim>\<open>apiClient.post('/logout')\<close> and the refresh request, as these servers see them.
\<close>

definition scripted :: "outcome list \<Rightarrow> config list \<Rightarrow> config \<Rightarrow> nat \<times> outcome" where
  "scripted answers history c =
     (if length history < length answers then (5, answers ! length history) else (5, NoAnswer))"

definition plain_body :: response_data where
  "plain_body = \<lparr>success = True, accessToken = None, message = None, payload = None\<rparr>"

definition granted :: "string \<Rightarrow> outcome" where
  "granted t = Answered \<lparr>status = 200, rdata = plain_body\<lparr>accessToken := Some t\<rparr>\<rparr>"

definition answered :: "nat \<Rightarrow> outcome" where
  "answered code = Answered \<lparr>status = code, rdata = plain_body\<lparr>success := (code < 300)\<rparr>\<rparr>"

definition unauthorized :: response where
  "unauthorized = \<lparr>status = 401, rdata = plain_body\<lparr>success := False\<rparr>\<rparr>"

definition decoder :: "string \<Rightarrow> jwt_payload option" where
  "decoder t =
     (if t = ''fresh'' then Some \<lparr>exp = Some 2000\<rparr>
      else if t = ''newer'' then Some \<lparr>exp = Some 3000\<rparr>
      else if t = ''stale'' then Some \<lparr>exp = Some 990\<rparr>
      else None)"

definition server :: "outcome list \<Rightarrow> env" where
  "server answers =
     \<lparr>net = scripted answers, jwtDecode = decoder,
      stringify = (\<lambda>s. ''{}''), VITE_API_URI = None\<rparr>"

definition browser :: "string option \<Rightarrow> world" where
  "browser t =
     \<lparr>localStorage = (\<lambda>k. if k = ''accessToken'' then t
                           else if k = ''userEmail'' then Some ''a@b.c''
                           else if k = ''auth-store'' then Some ''{}'' else None),
      store = \<lparr>isAuthenticated = True, email = Some ''a@b.c''\<rparr>,
      has_window = True, href = [], toasts = [], console = [], sent = [], clock = 1000000\<rparr>"

definition get_images :: config where
  "get_images = instance_config (server []) GET ''/images'' NoData"

definition post_logout :: config where
  "post_logout = instance_config (server []) POST ''/logout'' NoData"

definition post_refresh :: config where
  "post_refresh = refresh_request (server [])"

subsection \<open>Two predicates for the proofs\<close>

text \<open>The browser stores a non-empty token other than \<open>t\<close>; the server never answers
  with a body whose \<^verbatim>\<open>accessToken\<close> is \<open>t\<close>.\<close>

definition holds_other :: "string \<Rightarrow> world \<Rightarrow> bool" where
  "holds_other t w = (case getItem ''accessToken'' w of None \<Rightarrow> False | Some s \<Rightarrow> s \<noteq> [] \<and> s \<noteq> t)"

definition never_grants :: "env \<Rightarrow> string \<Rightarrow> bool" where
  "never_grants e t = (\<forall>h q ms r. net e h q = (ms, Answered r) \<longrightarrow> accessToken (rdata r) \<noteq> Some t)"

section \<open>Properties\<close>

subsection \<open>Auxiliary facts\<close>

lemmas ops = setItem_def removeItem_def console_log_def toast_error_def redirect_def
  set_state_def setAuth_def getItem_def truthy_def Let_def

lemmas scenario = server_def scripted_def browser_def granted_def answered_def
  plain_body_def decoder_def get_images_def post_refresh_def post_logout_def
  unauthorized_def instance_config_def
  refresh_request_def API_URI_def

lemmas client = apiClient.simps response_onRejected.simps

lemmas run = request_interceptor_def isTokenExpired_def refreshAccessToken_def
  refresh_attempt_def dispatchRequest_def

lemma refresh_attempt_cases:
  "refresh_attempt e w =
     (let (ms, out) = net e (sent w) (refresh_request e);
          w1 = w\<lparr>sent := sent w @ [refresh_request e], clock := clock w + ms\<rparr>
      in case out of
           NoAnswer \<Rightarrow> (Inl (AxiosError (refresh_request e) None), w1)
         | Answered r \<Rightarrow>
             if 200 \<le> status r \<and> status r < 300 then
               (if success (rdata r) \<and> truthy (accessToken (rdata r)) then
                  (Inr (accessToken (rdata r)),
                   setAuth e True None
                     (if has_window w then setItem ''accessToken'' (the (accessToken (rdata r))) w1 else w1))
                else (Inr None, w1))
             else (Inl (AxiosError (refresh_request e) (Some r)), w1))"
  by (auto simp: refresh_attempt_def dispatchRequest_def Let_def truthy_def
           split: prod.splits outcome.splits option.splits)

lemma refreshAccessToken_fulfils: "\<exists>v. fst (refreshAccessToken e w) = Inr v"
  by (simp add: refreshAccessToken_def split: prod.splits sum.splits)

lemma refreshAccessToken_granted:
  assumes "net e (sent w) (refresh_request e) = (ms, Answered r)"
    and "200 \<le> status r" "status r < 300" "success (rdata r)"
    and "accessToken (rdata r) = Some t" "t \<noteq> []"
  shows "refreshAccessToken e w =
           (Inr (Some t),
            setAuth e True None
              ((if has_window w then setItem ''accessToken'' t else id)
                 (w\<lparr>sent := sent w @ [refresh_request e], clock := clock w + ms\<rparr>)))"
  using assms by (simp add: refreshAccessToken_def refresh_attempt_cases truthy_def)

lemma refreshAccessToken_refused:
  assumes "\<forall>ms r. net e (sent w) (refresh_request e) = (ms, Answered r)
           \<longrightarrow> \<not> (200 \<le> status r \<and> status r < 300 \<and> success (rdata r) \<and> truthy (accessToken (rdata r)))"
  shows "fst (refreshAccessToken e w) = Inr None"
proof (cases "net e (sent w) (refresh_request e)")
  case (Pair ms out)
  show ?thesis
  proof (cases out)
    case NoAnswer
    with Pair show ?thesis by (simp add: refreshAccessToken_def refresh_attempt_cases)
  next
    case (Answered r)
    with Pair assms have "\<not> (200 \<le> status r \<and> status r < 300 \<and> success (rdata r) \<and> truthy (accessToken (rdata r)))"
      by blast
    with Pair Answered show ?thesis
      by (auto simp add: refreshAccessToken_def refresh_attempt_cases Let_def)
  qed
qed

lemma refreshAccessToken_logs:
  assumes "\<forall>ms r. net e (sent w) (refresh_request e) = (ms, Answered r)
           \<longrightarrow> \<not> (200 \<le> status r \<and> status r < 300)"
  shows "console (snd (refreshAccessToken e w)) = console w @ [''Error refreshing token:'']"
proof (cases "net e (sent w) (refresh_request e)")
  case (Pair ms out)
  show ?thesis
  proof (cases out)
    case NoAnswer
    with Pair show ?thesis by (simp add: refreshAccessToken_def refresh_attempt_cases console_log_def)
  next
    case (Answered r)
    with Pair assms have "\<not> (200 \<le> status r \<and> status r < 300)" by blast
    with Pair Answered show ?thesis
      by (auto simp add: refreshAccessToken_def refresh_attempt_cases console_log_def)
  qed
qed

subsection \<open>The refresh operation\<close>

text \<open>
  Claim C6. \<^verbatim>\<open>refreshAccessToken\<close> never rejects: whatever the network and the server
  do, its promise fulfils. When the server answers with a 2xx status and a body with
  \<^verbatim>\<open>success\<close> true and a non-empty \<^verbatim>\<open>accessToken\<close>, it returns that token, the
  session is authenticated and (in a browser, where \<^verbatim>\<open>window\<close> is defined) the token is
  stored under \<^verbatim>\<open>accessToken\<close>. On every other outcome (no answer, a status outside
  2xx, a body without success or without a token) it returns \<^verbatim>\<open>null\<close>; when the
  call itself failed (no answer, or a status outside 2xx) the error is logged.
\<close>

theorem refreshAccessToken_signals_by_value:
  "(\<exists>v. fst (refreshAccessToken e w) = Inr v)
   \<and> (\<forall>ms r t. net e (sent w) (refresh_request e) = (ms, Answered r)
          \<and> 200 \<le> status r \<and> status r < 300
          \<and> success (rdata r) \<and> accessToken (rdata r) = Some t \<and> t \<noteq> []
        \<longrightarrow> fst (refreshAccessToken e w) = Inr (Some t)
            \<and> isAuthenticated (store (snd (refreshAccessToken e w)))
            \<and> (has_window w \<longrightarrow> getItem ''accessToken'' (snd (refreshAccessToken e w)) = Some t))
   \<and> ((\<forall>ms r. net e (sent w) (refresh_request e) = (ms, Answered r)
           \<longrightarrow> \<not> (200 \<le> status r \<and> status r < 300 \<and> success (rdata r) \<and> truthy (accessToken (rdata r))))
        \<longrightarrow> fst (refreshAccessToken e w) = Inr None)
   \<and> ((\<forall>ms r. net e (sent w) (refresh_request e) = (ms, Answered r)
           \<longrightarrow> \<not> (200 \<le> status r \<and> status r < 300))
        \<longrightarrow> console (snd (refreshAccessToken e w)) = console w @ [''Error refreshing token:''])"
proof (intro conjI allI impI)
  show "\<exists>v. fst (refreshAccessToken e w) = Inr v" by (rule refreshAccessToken_fulfils)
next
  assume "\<forall>ms r. net e (sent w) (refresh_request e) = (ms, Answered r)
           \<longrightarrow> \<not> (200 \<le> status r \<and> status r < 300)"
  then show "console (snd (refreshAccessToken e w)) = console w @ [''Error refreshing token:'']"
    by (rule refreshAccessToken_logs)
next
  fix ms r t
  assume a: "net e (sent w) (refresh_request e) = (ms, Answered r)
          \<and> 200 \<le> status r \<and> status r < 300
          \<and> success (rdata r) \<and> accessToken (rdata r) = Some t \<and> t \<noteq> []"
  then have eq: "refreshAccessToken e w =
           (Inr (Some t),
            setAuth e True None
              ((if has_window w then setItem ''accessToken'' t else id)
                 (w\<lparr>sent := sent w @ [refresh_request e], clock := clock w + ms\<rparr>)))"
    using refreshAccessToken_granted [of e w ms r t] by simp
  show "fst (refreshAccessToken e w) = Inr (Some t)" by (simp add: eq)
  show "isAuthenticated (store (snd (refreshAccessToken e w)))"
    by (simp add: eq ops)
  assume "has_window w"
  then show "getItem ''accessToken'' (snd (refreshAccessToken e w)) = Some t"
    by (simp add: eq ops)
next
  assume "\<forall>ms r. net e (sent w) (refresh_request e) = (ms, Answered r)
           \<longrightarrow> \<not> (200 \<le> status r \<and> status r < 300 \<and> success (rdata r) \<and> truthy (accessToken (rdata r)))"
  then show "fst (refreshAccessToken e w) = Inr None" by (rule refreshAccessToken_refused)
qed

text \<open>
  The theorem at three servers: one grants the token \<^verbatim>\<open>fresh\<close>, one answers 500, one
  does not answer.
\<close>

theorem refreshAccessToken_signals_by_value_witness:
  "fst (refreshAccessToken (server [granted ''fresh'']) (browser (Some ''stale''))) = Inr (Some ''fresh'')
   \<and> isAuthenticated (store (snd (refreshAccessToken (server [granted ''fresh'']) (browser (Some ''stale'')))))
   \<and> getItem ''accessToken'' (snd (refreshAccessToken (server [granted ''fresh'']) (browser (Some ''stale'')))) = Some ''fresh''
   \<and> fst (refreshAccessToken (server [answered 500]) (browser (Some ''stale''))) = Inr None
   \<and> fst (refreshAccessToken (server []) (browser (Some ''stale''))) = Inr None
   \<and> console (snd (refreshAccessToken (server []) (browser (Some ''stale'')))) = [''Error refreshing token:'']"
proof -
  let ?w = "browser (Some ''stale'')"
  have ok: "net (server [granted ''fresh'']) (sent ?w) (refresh_request (server [granted ''fresh'']))
              = (5, Answered \<lparr>status = 200, rdata = plain_body\<lparr>accessToken := Some ''fresh''\<rparr>\<rparr>)"
    by (simp add: server_def scripted_def browser_def granted_def)
  have bad: "\<forall>ms r. net (server [answered 500]) (sent ?w) (refresh_request (server [answered 500])) = (ms, Answered r)
           \<longrightarrow> \<not> (200 \<le> status r \<and> status r < 300 \<and> success (rdata r) \<and> truthy (accessToken (rdata r)))"
    by (simp add: server_def scripted_def browser_def answered_def)
  have none: "\<forall>ms r. net (server []) (sent ?w) (refresh_request (server [])) = (ms, Answered r)
           \<longrightarrow> \<not> (200 \<le> status r \<and> status r < 300 \<and> success (rdata r) \<and> truthy (accessToken (rdata r)))"
    by (simp add: server_def scripted_def browser_def)
  have silent: "\<forall>ms r. net (server []) (sent ?w) (refresh_request (server [])) = (ms, Answered r)
           \<longrightarrow> \<not> (200 \<le> status r \<and> status r < 300)"
    by (simp add: server_def scripted_def browser_def)
  have w: "has_window ?w" "console ?w = []" by (simp_all add: browser_def)
  from refreshAccessToken_signals_by_value [of "server [granted ''fresh'']" ?w] ok w
       refreshAccessToken_signals_by_value [of "server [answered 500]" ?w] bad
       refreshAccessToken_signals_by_value [of "server []" ?w] none silent
  show ?thesis by (simp add: plain_body_def)
qed

subsection \<open>\<^verbatim>\<open>setAuth\<close> without an email\<close>

text \<open>
  Claim C9. \<^verbatim>\<open>setAuth\<close> called without an email, or with the empty string, changes
  of the session only \<^verbatim>\<open>isAuthenticated\<close>: the email in memory and the stored
  \<^verbatim>\<open>userEmail\<close> stay as they were. So does a token refresh, which calls
  \<^verbatim>\<open>setAuth(true)\<close>, whether it succeeds or not.
\<close>

theorem setAuth_without_email_keeps_email:
  "(em = None \<or> em = Some [] \<longrightarrow>
      store (setAuth e auth em w) = (store w)\<lparr>isAuthenticated := auth\<rparr>
    \<and> email (store (setAuth e auth em w)) = email (store w)
    \<and> localStorage (setAuth e auth em w) ''userEmail'' = localStorage w ''userEmail'')
   \<and> email (store (snd (refreshAccessToken e w))) = email (store w)
   \<and> localStorage (snd (refreshAccessToken e w)) ''userEmail'' = localStorage w ''userEmail''"
proof (intro conjI impI)
  assume "em = None \<or> em = Some []"
  then have f: "\<not> truthy em" by (auto simp: truthy_def)
  then show "store (setAuth e auth em w) = (store w)\<lparr>isAuthenticated := auth\<rparr>"
    by (simp add: setAuth_def set_state_def setItem_def Let_def)
  from f show "email (store (setAuth e auth em w)) = email (store w)"
    by (simp add: setAuth_def set_state_def setItem_def Let_def)
  from f show "localStorage (setAuth e auth em w) ''userEmail'' = localStorage w ''userEmail''"
    by (simp add: setAuth_def set_state_def setItem_def Let_def)
next
  show "email (store (snd (refreshAccessToken e w))) = email (store w)"
    by (simp add: refreshAccessToken_def refresh_attempt_cases ops
             split: prod.splits outcome.splits)
  show "localStorage (snd (refreshAccessToken e w)) ''userEmail'' = localStorage w ''userEmail''"
    by (simp add: refreshAccessToken_def refresh_attempt_cases ops
             split: prod.splits outcome.splits)
qed

theorem setAuth_without_email_keeps_email_witness:
  "store (setAuth (server []) False None (browser (Some ''fresh'')))
     = \<lparr>isAuthenticated = False, email = Some ''a@b.c''\<rparr>
   \<and> localStorage (setAuth (server []) False (Some []) (browser (Some ''fresh''))) ''userEmail'' = Some ''a@b.c''
   \<and> email (store (snd (refreshAccessToken (server [granted ''fresh'']) (browser (Some ''stale''))))) = Some ''a@b.c''
   \<and> localStorage (snd (refreshAccessToken (server [granted ''fresh'']) (browser (Some ''stale'')))) ''userEmail'' = Some ''a@b.c''"
  using setAuth_without_email_keeps_email [of None "server []" False "browser (Some ''fresh'')"]
        setAuth_without_email_keeps_email [of "Some []" "server []" False "browser (Some ''fresh'')"]
        setAuth_without_email_keeps_email [of None "server [granted ''fresh'']" False "browser (Some ''stale'')"]
  by (simp add: browser_def)

subsection \<open>Facts about the interceptors\<close>

lemma isTokenExpired_world:
  "snd (isTokenExpired e t w) = (if jwtDecode e t = None then console_log ''Error decoding token:'' w else w)"
  by (simp add: isTokenExpired_def split: option.splits)

lemma isTokenExpired_not_world:
  "\<not> fst (isTokenExpired e t w) \<Longrightarrow> snd (isTokenExpired e t w) = w"
  by (simp add: isTokenExpired_def split: option.splits)

lemma refreshAccessToken_sent:
  "sent (snd (refreshAccessToken e w)) = sent w @ [refresh_request e]"
  by (simp add: refreshAccessToken_def refresh_attempt_cases ops split: prod.splits outcome.splits)

lemma refreshAccessToken_has_window:
  "has_window (snd (refreshAccessToken e w)) = has_window w"
  by (simp add: refreshAccessToken_def refresh_attempt_cases ops split: prod.splits outcome.splits)

lemma refreshAccessToken_token:
  assumes "fst (refreshAccessToken e w) = Inr (Some t)"
  shows "t \<noteq> []" and "has_window w \<Longrightarrow> getItem ''accessToken'' (snd (refreshAccessToken e w)) = Some t"
  using assms
  by (auto simp add: refreshAccessToken_def refresh_attempt_cases ops split: prod.splits outcome.splits if_splits option.splits)

lemma request_interceptor_no_token:
  "\<not> truthy (getItem ''accessToken'' w) \<Longrightarrow> request_interceptor e c w = (Inr c, w)"
  by (simp add: request_interceptor_def)

lemma request_interceptor_valid:
  assumes "getItem ''accessToken'' w = Some t" "t \<noteq> []" "\<not> fst (isTokenExpired e t w)"
  shows "request_interceptor e c w = (Inr (c\<lparr>Authorization := Some (''Bearer '' @ t)\<rparr>), w)"
  using assms isTokenExpired_not_world [of e t w]
  by (simp add: request_interceptor_def truthy_def case_prod_beta)

lemma request_interceptor_expired:
  assumes "getItem ''accessToken'' w = Some t" "t \<noteq> []" "fst (isTokenExpired e t w)"
  shows "request_interceptor e c w =
           (case fst (refreshAccessToken e (snd (isTokenExpired e t w))) of
              Inr (Some t') \<Rightarrow>
                (Inr (c\<lparr>Authorization := Some (''Bearer '' @ t')\<rparr>),
                 snd (refreshAccessToken e (snd (isTokenExpired e t w))))
            | _ \<Rightarrow>
                (Inl (Error ''Session expired. Please login again.''),
                 redirect ''/login'' (removeItem ''accessToken''
                   (setAuth e False None (snd (refreshAccessToken e (snd (isTokenExpired e t w))))))))"
proof -
  obtain v w2 where r: "refreshAccessToken e (snd (isTokenExpired e t w)) = (v, w2)"
    by (cases "refreshAccessToken e (snd (isTokenExpired e t w))")
  show ?thesis
  proof (cases v)
    case (Inl err)
    with r assms show ?thesis
      by (simp add: request_interceptor_def truthy_def case_prod_beta)
  next
    case (Inr nt)
    show ?thesis
    proof (cases nt)
      case None
      with r Inr assms show ?thesis
        by (simp add: request_interceptor_def truthy_def case_prod_beta)
    next
      case (Some t')
      with r Inr have "fst (refreshAccessToken e (snd (isTokenExpired e t w))) = Inr (Some t')" by simp
      then have "t' \<noteq> []" by (rule refreshAccessToken_token)
      with r Inr Some assms show ?thesis
        by (simp add: request_interceptor_def truthy_def case_prod_beta)
    qed
  qed
qed

lemma response_onRejected_retried:
  "retry c \<Longrightarrow> response_onRejected e (AxiosError c r) w = (Inl (AxiosError c r), w)"
  by (simp add: response_onRejected.simps split: option.splits)

lemma response_onRejected_Error:
  "response_onRejected e (Error m) w = (Inl (Error m), w)"
  by (simp add: response_onRejected.simps)

lemma response_onRejected_passes:
  "status r \<noteq> 401 \<Longrightarrow>
   response_onRejected e (AxiosError c (Some r)) w = (Inl (AxiosError c (Some r)), w)"
  by (simp add: response_onRejected.simps)

lemma response_onRejected_no_response:
  "response_onRejected e (AxiosError c None) w = (Inl (AxiosError c None), w)"
  by (simp add: response_onRejected.simps)

lemma apiClient_retried:
  assumes "retry c"
  shows "apiClient e c w =
           (case request_interceptor e c w of
              (Inl err, w1) \<Rightarrow> (Inl err, w1)
            | (Inr c1, w1) \<Rightarrow> dispatchRequest e c1 w1)"
proof (cases "request_interceptor e c w")
  case (Pair a w1)
  show ?thesis
  proof (cases a)
    case (Inl err)
    with Pair have "err = Error ''Session expired. Please login again.''"
      using request_interceptor_rejects_Error [of e c w err w1] by simp
    with Pair Inl show ?thesis by (simp add: apiClient.simps response_onRejected_Error)
  next
    case (Inr c1)
    with Pair assms have rc: "retry c1"
      using request_interceptor_keeps_retry [of e c w c1 w1] by simp
    obtain b w2 where d: "dispatchRequest e c1 w1 = (b, w2)" by (cases "dispatchRequest e c1 w1")
    show ?thesis
    proof (cases b)
      case (Inl err)
      with d obtain ro where "err = AxiosError c1 ro"
        using dispatchRequest_rejects_with_config [of e c1 w1 err w2] by auto
      with Pair Inr d Inl rc show ?thesis by (simp add: apiClient.simps response_onRejected_retried)
    next
      case (Inr resp)
      with Pair \<open>a = Inr c1\<close> d show ?thesis by (simp add: apiClient.simps)
    qed
  qed
qed

subsection \<open>A stored token that has not expired\<close>

text \<open>
  Claim C7. When \<^verbatim>\<open>accessToken\<close> is stored and non-empty and \<^verbatim>\<open>isTokenExpired\<close>
  says it has not expired, the request interceptor returns the configuration with
  \<^verbatim>\<open>Authorization: Bearer <token>\<close>, the token as stored, and leaves the browser as it
  was: it sends nothing, so no refresh call is made. Sending that configuration puts
  exactly this one request on the network. Unless the server answers it with 401 (and
  the request has not been retried yet), that exchange is all the client does.
\<close>

theorem valid_token_attached_unchanged:
  assumes "getItem ''accessToken'' w = Some t" and "t \<noteq> []"
    and "\<not> fst (isTokenExpired e t w)"
  shows "request_interceptor e c w = (Inr (c\<lparr>Authorization := Some (''Bearer '' @ t)\<rparr>), w)
       \<and> sent (snd (dispatchRequest e (c\<lparr>Authorization := Some (''Bearer '' @ t)\<rparr>) w))
           = sent w @ [c\<lparr>Authorization := Some (''Bearer '' @ t)\<rparr>]
       \<and> ((\<forall>r. fst (dispatchRequest e (c\<lparr>Authorization := Some (''Bearer '' @ t)\<rparr>) w)
                   = Inl (AxiosError (c\<lparr>Authorization := Some (''Bearer '' @ t)\<rparr>) (Some r))
                \<longrightarrow> status r \<noteq> 401 \<or> retry c)
            \<longrightarrow> apiClient e c w = dispatchRequest e (c\<lparr>Authorization := Some (''Bearer '' @ t)\<rparr>) w)"
proof (intro conjI impI)
  let ?c1 = "c\<lparr>Authorization := Some (''Bearer '' @ t)\<rparr>"
  show ri: "request_interceptor e c w = (Inr ?c1, w)"
    using assms by (rule request_interceptor_valid)
  show "sent (snd (dispatchRequest e ?c1 w)) = sent w @ [?c1]"
    by (simp add: dispatchRequest_def Let_def split: prod.splits outcome.splits)
  assume pass: "\<forall>r. fst (dispatchRequest e ?c1 w) = Inl (AxiosError ?c1 (Some r))
                 \<longrightarrow> status r \<noteq> 401 \<or> retry c"
  obtain b w2 where d: "dispatchRequest e ?c1 w = (b, w2)" by (cases "dispatchRequest e ?c1 w")
  show "apiClient e c w = dispatchRequest e ?c1 w"
  proof (cases b)
    case (Inr resp)
    with ri d show ?thesis by (simp add: apiClient.simps)
  next
    case (Inl err)
    with d obtain ro where err: "err = AxiosError ?c1 ro"
      using dispatchRequest_rejects_with_config [of e ?c1 w err w2] by auto
    show ?thesis
    proof (cases ro)
      case None
      with ri d Inl err show ?thesis by (simp add: apiClient.simps response_onRejected_no_response)
    next
      case (Some r)
      with pass d Inl err have "status r \<noteq> 401 \<or> retry c" by simp
      with ri d Inl err Some show ?thesis
        by (auto simp add: apiClient.simps response_onRejected_passes response_onRejected_retried)
    qed
  qed
qed

theorem valid_token_attached_unchanged_witness:
  "request_interceptor (server [answered 200]) (instance_config (server [answered 200]) GET ''/images'' NoData) (browser (Some ''fresh''))
     = (Inr ((instance_config (server [answered 200]) GET ''/images'' NoData)\<lparr>Authorization := Some ''Bearer fresh''\<rparr>),
        browser (Some ''fresh''))
   \<and> sent (snd (apiClient (server [answered 200]) (instance_config (server [answered 200]) GET ''/images'' NoData) (browser (Some ''fresh''))))
     = [(instance_config (server [answered 200]) GET ''/images'' NoData)\<lparr>Authorization := Some ''Bearer fresh''\<rparr>]"
proof -
  let ?e = "server [answered 200]"
  let ?w = "browser (Some ''fresh'')"
  let ?c = "instance_config ?e GET ''/images'' NoData"
  have 1: "getItem ''accessToken'' ?w = Some ''fresh''" by (simp add: getItem_def browser_def)
  have 2: "\<not> fst (isTokenExpired ?e ''fresh'' ?w)"
    by (simp add: isTokenExpired_def server_def decoder_def browser_def)
  have 3: "\<forall>r. fst (dispatchRequest ?e (?c\<lparr>Authorization := Some (''Bearer '' @ ''fresh'')\<rparr>) ?w)
                   = Inl (AxiosError (?c\<lparr>Authorization := Some (''Bearer '' @ ''fresh'')\<rparr>) (Some r))
                \<longrightarrow> status r \<noteq> 401 \<or> retry ?c"
    by (simp add: dispatchRequest_def scenario)
  note t = valid_token_attached_unchanged [OF 1 _ 2, of ?c]
  from t have a: "request_interceptor ?e ?c ?w = (Inr (?c\<lparr>Authorization := Some (''Bearer '' @ ''fresh'')\<rparr>), ?w)"
    by simp
  from t 3 have b: "apiClient ?e ?c ?w = dispatchRequest ?e (?c\<lparr>Authorization := Some (''Bearer '' @ ''fresh'')\<rparr>) ?w"
    by simp
  from t have c: "sent (snd (dispatchRequest ?e (?c\<lparr>Authorization := Some (''Bearer '' @ ''fresh'')\<rparr>) ?w))
           = sent ?w @ [?c\<lparr>Authorization := Some (''Bearer '' @ ''fresh'')\<rparr>]"
    by simp
  from a b c show ?thesis by (simp add: browser_def)
qed

subsection \<open>Facts about the requests put on the network\<close>

lemma dispatchRequest_sent:
  "sent (snd (dispatchRequest e c w)) = sent w @ [c]"
  by (simp add: dispatchRequest_def Let_def split: prod.splits outcome.splits)

lemma isTokenExpired_sent: "sent (snd (isTokenExpired e t w)) = sent w"
  by (simp add: isTokenExpired_world console_log_def)

lemma request_interceptor_sent:
  "\<exists>xs. sent (snd (request_interceptor e c w)) = sent w @ xs \<and> filter retry xs = []"
proof (cases "truthy (getItem ''accessToken'' w)")
  case False
  then show ?thesis by (simp add: request_interceptor_no_token)
next
  case True
  then obtain t where t: "getItem ''accessToken'' w = Some t" "t \<noteq> []"
    by (auto simp: truthy_def split: option.splits)
  show ?thesis
  proof (cases "fst (isTokenExpired e t w)")
    case False
    with t show ?thesis by (simp add: request_interceptor_valid)
  next
    case True
    have "sent (snd (request_interceptor e c w)) = sent w @ [refresh_request e]"
      using t True
      by (simp add: request_interceptor_expired refreshAccessToken_sent isTokenExpired_sent
            redirect_def removeItem_def setAuth_def set_state_def setItem_def truthy_def Let_def
            split: sum.splits option.splits)
    then show ?thesis by (simp add: refresh_request_def)
  qed
qed

lemma apiClient_retried_sent:
  assumes "retry c"
  shows "\<exists>xs. sent (snd (apiClient e c w)) = sent w @ xs \<and> length (filter retry xs) \<le> 1"
proof -
  obtain xs where xs: "sent (snd (request_interceptor e c w)) = sent w @ xs" "filter retry xs = []"
    using request_interceptor_sent by blast
  obtain a w1 where ri: "request_interceptor e c w = (a, w1)" by (cases "request_interceptor e c w")
  show ?thesis
  proof (cases a)
    case (Inl err)
    with ri xs assms show ?thesis by (simp add: apiClient_retried)
  next
    case (Inr c1)
    with ri xs assms have "sent (snd (apiClient e c w)) = sent w @ (xs @ [c1])"
      by (simp add: apiClient_retried dispatchRequest_sent)
    moreover have "length (filter retry (xs @ [c1])) \<le> 1" using xs by simp
    ultimately show ?thesis by blast
  qed
qed

lemma response_onRejected_sent:
  "\<exists>xs. sent (snd (response_onRejected e err w)) = sent w @ xs \<and> length (filter retry xs) \<le> 1"
proof (cases "\<exists>c r. err = AxiosError c (Some r) \<and> status r = 401 \<and> \<not> retry c")
  case False
  then have "response_onRejected e err w = (Inl err, w)"
    by (auto simp add: response_onRejected.simps split: js_error.splits option.splits)
  then show ?thesis by simp
next
  case True
  then obtain c r where err: "err = AxiosError c (Some r)" "status r = 401" "\<not> retry c" by blast
  obtain v w1 where rf: "refreshAccessToken e w = (v, w1)" by (cases "refreshAccessToken e w")
  then have s1: "sent w1 = sent w @ [refresh_request e]"
    using refreshAccessToken_sent [of e w] by simp
  show ?thesis
  proof (cases "\<exists>t. v = Inr (Some t) \<and> t \<noteq> []")
    case False
    then have "sent (snd (response_onRejected e err w)) = sent w @ [refresh_request e]"
      using err rf s1
      by (auto simp add: response_onRejected.simps redirect_def removeItem_def setAuth_def
            set_state_def setItem_def truthy_def Let_def toast_error_def console_log_def
            split: sum.splits option.splits)
    then show ?thesis by (simp add: refresh_request_def)
  next
    case True
    then obtain t where t: "v = Inr (Some t)" "t \<noteq> []" by blast
    let ?c' = "c\<lparr>retry := True, Authorization := Some (''Bearer '' @ t)\<rparr>"
    have eq: "response_onRejected e err w = apiClient e ?c' w1"
      using err rf t by (simp add: response_onRejected.simps truthy_def)
    obtain ys where ys: "sent (snd (apiClient e ?c' w1)) = sent w1 @ ys" "length (filter retry ys) \<le> 1"
      using apiClient_retried_sent [of ?c' e w1] by auto
    have "sent (snd (response_onRejected e err w)) = sent w @ (refresh_request e # ys)"
      using eq ys s1 by simp
    moreover have "length (filter retry (refresh_request e # ys)) \<le> 1"
      using ys by (simp add: refresh_request_def)
    ultimately show ?thesis by blast
  qed
qed

lemma apiClient_sent:
  "\<exists>xs. sent (snd (apiClient e c w)) = sent w @ xs \<and> length (filter retry xs) \<le> 1"
proof (cases "retry c")
  case True
  then show ?thesis by (rule apiClient_retried_sent)
next
  case False
  obtain xs where xs: "sent (snd (request_interceptor e c w)) = sent w @ xs" "filter retry xs = []"
    using request_interceptor_sent by blast
  obtain a w1 where ri: "request_interceptor e c w = (a, w1)" by (cases "request_interceptor e c w")
  show ?thesis
  proof (cases a)
    case (Inl err)
    with ri have "err = Error ''Session expired. Please login again.''"
      using request_interceptor_rejects_Error [of e c w err w1] by simp
    with ri Inl xs show ?thesis by (simp add: apiClient.simps response_onRejected_Error)
  next
    case (Inr c1)
    with ri False have rc: "\<not> retry c1"
      using request_interceptor_keeps_retry [of e c w c1 w1] by simp
    obtain b w2 where d: "dispatchRequest e c1 w1 = (b, w2)" by (cases "dispatchRequest e c1 w1")
    then have s2: "sent w2 = sent w @ (xs @ [c1])"
      using dispatchRequest_sent [of e c1 w1] ri xs by simp
    show ?thesis
    proof (cases b)
      case (Inr resp)
      with ri \<open>a = Inr c1\<close> d have "apiClient e c w = (Inr resp, w2)" by (simp add: apiClient.simps)
      with s2 xs rc show ?thesis by simp
    next
      case (Inl err)
      with ri \<open>a = Inr c1\<close> d have eq: "apiClient e c w = response_onRejected e err w2"
        by (simp add: apiClient.simps)
      obtain ys where ys: "sent (snd (response_onRejected e err w2)) = sent w2 @ ys"
          "length (filter retry ys) \<le> 1"
        using response_onRejected_sent by blast
      have "sent (snd (apiClient e c w)) = sent w @ (xs @ [c1] @ ys)"
        using eq ys s2 by simp
      moreover have "length (filter retry (xs @ [c1] @ ys)) \<le> 1"
        using xs rc ys by simp
      ultimately show ?thesis by blast
    qed
  qed
qed

lemma response_onRejected_resend:
  assumes "status r = 401" and "\<not> retry c" and "has_window w"
    and "fst (refreshAccessToken e w) = Inr (Some t)"
    and "\<not> fst (isTokenExpired e t (snd (refreshAccessToken e w)))"
  shows "response_onRejected e (AxiosError c (Some r)) w
           = dispatchRequest e (c\<lparr>retry := True, Authorization := Some (''Bearer '' @ t)\<rparr>)
               (snd (refreshAccessToken e w))"
proof -
  let ?w1 = "snd (refreshAccessToken e w)"
  let ?c' = "c\<lparr>retry := True, Authorization := Some (''Bearer '' @ t)\<rparr>"
  from assms(4) have t: "t \<noteq> []" by (rule refreshAccessToken_token)
  from assms(3,4) have st: "getItem ''accessToken'' ?w1 = Some t"
    by (simp add: refreshAccessToken_token)
  have "response_onRejected e (AxiosError c (Some r)) w = apiClient e ?c' ?w1"
    using assms(1,2,4) t
    by (simp add: response_onRejected.simps truthy_def case_prod_beta)
  also have "\<dots> = (case request_interceptor e ?c' ?w1 of
              (Inl err, w1) \<Rightarrow> (Inl err, w1)
            | (Inr c1, w1) \<Rightarrow> dispatchRequest e c1 w1)"
    by (rule apiClient_retried) simp
  also have "request_interceptor e ?c' ?w1 = (Inr (?c'\<lparr>Authorization := Some (''Bearer '' @ t)\<rparr>), ?w1)"
    using st t assms(5) by (rule request_interceptor_valid)
  finally show ?thesis by simp
qed

lemma response_onRejected_refresh_fails:
  assumes "status r = 401" and "\<not> retry c" and "fst (refreshAccessToken e w) = Inr None"
  shows "response_onRejected e (AxiosError c (Some r)) w
           = (Inl (AxiosError (c\<lparr>retry := True\<rparr>) (Some r)),
              redirect ''/login''
                (toast_error (Some ''Session expired. Please login again.'')
                  (setAuth e False None (removeItem ''accessToken'' (snd (refreshAccessToken e w))))))"
  using assms by (simp add: response_onRejected.simps truthy_def case_prod_beta)

subsection \<open>A 401 on a request that has not been retried\<close>

text \<open>
  Claim C3 says that after a 401 the client refreshes at most once and resends the
  request once with the token of that refresh. The resend is \<^verbatim>\<open>apiClient(originalRequest)\<close>,
  so it passes the request interceptor again, which reads the stored token and checks
  its expiry. Here the browser holds \<^verbatim>\<open>fresh\<close>, the server answers 401, and the
  refresh returns \<^verbatim>\<open>stale\<close>, a token whose \<^verbatim>\<open>exp\<close> the browser's clock has passed:
  the interceptor of the resend refreshes a second time, and the request goes out with
  the token of the second refresh. Four requests are sent, two of them refresh calls.
\<close>

theorem refreshed_token_judged_expired_refreshes_again:
  "sent (snd (apiClient (server [answered 401, granted ''stale'', granted ''newer'', answered 200])
                get_images (browser (Some ''fresh''))))
     = [get_images\<lparr>Authorization := Some ''Bearer fresh''\<rparr>,
        post_refresh,
        post_refresh,
        get_images\<lparr>retry := True, Authorization := Some ''Bearer newer''\<rparr>]"
  by (simp add: apiClient.simps response_onRejected.simps request_interceptor_def
        isTokenExpired_def refreshAccessToken_def refresh_attempt_def dispatchRequest_def
        scenario ops)

text \<open>
  Claim C3, amended. In a browser, when the response interceptor receives a 401 for a
  request that has not been retried: if the refresh returns a token that
  \<^verbatim>\<open>isTokenExpired\<close> does not judge expired when the request is resent, the client
  makes exactly that one refresh call and then sends the original request exactly
  once more, marked as retried and with \<^verbatim>\<open>Bearer\<close> and the new token; what the caller
  gets is what that exchange gives, response or error. If the refresh returns
  \<^verbatim>\<open>null\<close>, the one refresh call is all that is sent and the caller gets the 401
  error.
\<close>

theorem unauthorized_refresh_and_resend_once:
  assumes "status r = 401" and "\<not> retry c" and "has_window w"
  shows "(\<forall>t. fst (refreshAccessToken e w) = Inr (Some t)
              \<and> \<not> fst (isTokenExpired e t (snd (refreshAccessToken e w)))
            \<longrightarrow> response_onRejected e (AxiosError c (Some r)) w
                  = dispatchRequest e (c\<lparr>retry := True, Authorization := Some (''Bearer '' @ t)\<rparr>)
                      (snd (refreshAccessToken e w))
                \<and> sent (snd (response_onRejected e (AxiosError c (Some r)) w))
                  = sent w @ [refresh_request e,
                              c\<lparr>retry := True, Authorization := Some (''Bearer '' @ t)\<rparr>])
       \<and> (fst (refreshAccessToken e w) = Inr None
            \<longrightarrow> fst (response_onRejected e (AxiosError c (Some r)) w)
                  = Inl (AxiosError (c\<lparr>retry := True\<rparr>) (Some r))
                \<and> sent (snd (response_onRejected e (AxiosError c (Some r)) w))
                  = sent w @ [refresh_request e])"
proof (intro conjI allI impI)
  fix t
  assume "fst (refreshAccessToken e w) = Inr (Some t)
            \<and> \<not> fst (isTokenExpired e t (snd (refreshAccessToken e w)))"
  then have eq: "response_onRejected e (AxiosError c (Some r)) w
           = dispatchRequest e (c\<lparr>retry := True, Authorization := Some (''Bearer '' @ t)\<rparr>)
               (snd (refreshAccessToken e w))"
    using assms by (simp add: response_onRejected_resend)
  then show "response_onRejected e (AxiosError c (Some r)) w
           = dispatchRequest e (c\<lparr>retry := True, Authorization := Some (''Bearer '' @ t)\<rparr>)
               (snd (refreshAccessToken e w))" .
  show "sent (snd (response_onRejected e (AxiosError c (Some r)) w))
          = sent w @ [refresh_request e, c\<lparr>retry := True, Authorization := Some (''Bearer '' @ t)\<rparr>]"
    by (simp add: eq dispatchRequest_sent refreshAccessToken_sent)
next
  assume none: "fst (refreshAccessToken e w) = Inr None"
  with assms have eq: "response_onRejected e (AxiosError c (Some r)) w
           = (Inl (AxiosError (c\<lparr>retry := True\<rparr>) (Some r)),
              redirect ''/login''
                (toast_error (Some ''Session expired. Please login again.'')
                  (setAuth e False None (removeItem ''accessToken'' (snd (refreshAccessToken e w))))))"
    by (simp add: response_onRejected_refresh_fails)
  show "fst (response_onRejected e (AxiosError c (Some r)) w)
          = Inl (AxiosError (c\<lparr>retry := True\<rparr>) (Some r))"
    by (simp add: eq)
  show "sent (snd (response_onRejected e (AxiosError c (Some r)) w)) = sent w @ [refresh_request e]"
    by (simp add: eq refreshAccessToken_sent ops)
qed

theorem unauthorized_refresh_and_resend_once_witness:
  "fst (response_onRejected (server [granted ''newer'', answered 200])
          (AxiosError (get_images\<lparr>Authorization := Some ''Bearer fresh''\<rparr>) (Some unauthorized))
          (browser (Some ''fresh'')))
     = Inr \<lparr>status = 200, rdata = plain_body\<rparr>
   \<and> sent (snd (response_onRejected (server [granted ''newer'', answered 200])
          (AxiosError (get_images\<lparr>Authorization := Some ''Bearer fresh''\<rparr>) (Some unauthorized))
          (browser (Some ''fresh''))))
     = [post_refresh, get_images\<lparr>retry := True, Authorization := Some ''Bearer newer''\<rparr>]
   \<and> fst (response_onRejected (server [answered 500])
          (AxiosError (get_images\<lparr>Authorization := Some ''Bearer fresh''\<rparr>) (Some unauthorized))
          (browser (Some ''fresh'')))
     = Inl (AxiosError (get_images\<lparr>Authorization := Some ''Bearer fresh'', retry := True\<rparr>) (Some unauthorized))
   \<and> sent (snd (response_onRejected (server [answered 500])
          (AxiosError (get_images\<lparr>Authorization := Some ''Bearer fresh''\<rparr>) (Some unauthorized))
          (browser (Some ''fresh''))))
     = [post_refresh]"
proof -
  let ?e = "server [granted ''newer'', answered 200]"
  let ?f = "server [answered 500]"
  let ?c = "get_images\<lparr>Authorization := Some ''Bearer fresh''\<rparr>"
  let ?w = "browser (Some ''fresh'')"
  have 1: "status unauthorized = 401" by (simp add: unauthorized_def)
  have 2: "\<not> retry ?c" by (simp add: scenario)
  have 3: "has_window ?w" by (simp add: browser_def)
  have 4: "fst (refreshAccessToken ?e ?w) = Inr (Some ''newer'')
             \<and> \<not> fst (isTokenExpired ?e ''newer'' (snd (refreshAccessToken ?e ?w)))"
    by (simp add: run scenario ops)
  have 5: "fst (refreshAccessToken ?f ?w) = Inr None"
    by (simp add: run scenario ops)
  have 6: "dispatchRequest ?e (?c\<lparr>retry := True, Authorization := Some (''Bearer '' @ ''newer'')\<rparr>)
              (snd (refreshAccessToken ?e ?w))
           = (Inr \<lparr>status = 200, rdata = plain_body\<rparr>,
              snd (dispatchRequest ?e (?c\<lparr>retry := True, Authorization := Some (''Bearer '' @ ''newer'')\<rparr>)
              (snd (refreshAccessToken ?e ?w))))"
    by (simp add: run scenario ops)
  note a = unauthorized_refresh_and_resend_once [OF 1 2 3, of ?e] and b = unauthorized_refresh_and_resend_once [OF 1 2 3, of ?f]
  from a 4 6 have "fst (response_onRejected ?e (AxiosError ?c (Some unauthorized)) ?w)
      = Inr \<lparr>status = 200, rdata = plain_body\<rparr>"
    by (metis fst_conv)
  moreover from a 4 have "sent (snd (response_onRejected ?e (AxiosError ?c (Some unauthorized)) ?w))
     = sent ?w @ [refresh_request ?e, ?c\<lparr>retry := True, Authorization := Some (''Bearer '' @ ''newer'')\<rparr>]"
    by blast
  moreover from b 5 have "fst (response_onRejected ?f (AxiosError ?c (Some unauthorized)) ?w)
     = Inl (AxiosError (?c\<lparr>retry := True\<rparr>) (Some unauthorized))
    \<and> sent (snd (response_onRejected ?f (AxiosError ?c (Some unauthorized)) ?w))
     = sent ?w @ [refresh_request ?f]"
    by blast
  ultimately show ?thesis by (simp add: scenario)
qed

subsection \<open>A second 401\<close>

text \<open>
  Claim C4. Once a request carries the retried flag, the response interceptor hands any
  error of it to the caller as it is, with no refresh, no resend and no other effect. So
  when the resent request is answered with 401 too, that second 401 is what the caller
  gets, and the requests sent are the refresh and the one resend. In every run of the
  client, from any configuration and any browser, at most one request with the retried
  flag is put on the network. (The client is a total function: the recursion of
  \<open>apiClient\<close> through \<open>response_onRejected\<close> was shown to terminate where the two
  are defined, by the retried flag.)
\<close>

theorem retried_request_is_not_retried_again:
  "(retry c \<longrightarrow> response_onRejected e (AxiosError c ro) w = (Inl (AxiosError c ro), w))
   \<and> (status r = 401 \<and> \<not> retry c \<and> has_window w
        \<and> fst (refreshAccessToken e w) = Inr (Some t)
        \<and> \<not> fst (isTokenExpired e t (snd (refreshAccessToken e w)))
        \<and> net e (sent (snd (refreshAccessToken e w)))
              (c\<lparr>retry := True, Authorization := Some (''Bearer '' @ t)\<rparr>) = (ms, Answered r2)
        \<and> status r2 = 401
      \<longrightarrow> fst (response_onRejected e (AxiosError c (Some r)) w)
            = Inl (AxiosError (c\<lparr>retry := True, Authorization := Some (''Bearer '' @ t)\<rparr>) (Some r2))
          \<and> sent (snd (response_onRejected e (AxiosError c (Some r)) w))
            = sent w @ [refresh_request e, c\<lparr>retry := True, Authorization := Some (''Bearer '' @ t)\<rparr>])
   \<and> (\<exists>xs. sent (snd (apiClient e c w)) = sent w @ xs \<and> length (filter retry xs) \<le> 1)"
proof (intro conjI impI)
  assume "retry c"
  then show "response_onRejected e (AxiosError c ro) w = (Inl (AxiosError c ro), w)"
    by (rule response_onRejected_retried)
next
  let ?c' = "c\<lparr>retry := True, Authorization := Some (''Bearer '' @ t)\<rparr>"
  let ?w1 = "snd (refreshAccessToken e w)"
  assume a: "status r = 401 \<and> \<not> retry c \<and> has_window w
        \<and> fst (refreshAccessToken e w) = Inr (Some t)
        \<and> \<not> fst (isTokenExpired e t ?w1)
        \<and> net e (sent ?w1) ?c' = (ms, Answered r2)
        \<and> status r2 = 401"
  then have eq: "response_onRejected e (AxiosError c (Some r)) w = dispatchRequest e ?c' ?w1"
    by (simp add: response_onRejected_resend)
  from a show "fst (response_onRejected e (AxiosError c (Some r)) w) = Inl (AxiosError ?c' (Some r2))"
    by (simp add: eq dispatchRequest_def)
  show "sent (snd (response_onRejected e (AxiosError c (Some r)) w)) = sent w @ [refresh_request e, ?c']"
    by (simp add: eq dispatchRequest_sent refreshAccessToken_sent)
next
  show "\<exists>xs. sent (snd (apiClient e c w)) = sent w @ xs \<and> length (filter retry xs) \<le> 1"
    by (rule apiClient_sent)
qed

text \<open>
  The theorem at a server that answers 401, grants \<^verbatim>\<open>newer\<close> and answers 401 again:
  three requests, and the caller gets the second 401.
\<close>

theorem retried_request_is_not_retried_again_witness:
  "apiClient (server [answered 401, granted ''newer'', answered 401])
      get_images (browser (Some ''fresh''))
   = response_onRejected (server [answered 401, granted ''newer'', answered 401])
      (AxiosError (get_images\<lparr>Authorization := Some ''Bearer fresh''\<rparr>) (Some unauthorized))
      ((browser (Some ''fresh''))\<lparr>sent := [get_images\<lparr>Authorization := Some ''Bearer fresh''\<rparr>],
                                  clock := 1000005\<rparr>)
   \<and> fst (apiClient (server [answered 401, granted ''newer'', answered 401])
      get_images (browser (Some ''fresh'')))
     = Inl (AxiosError (get_images\<lparr>Authorization := Some ''Bearer newer'', retry := True\<rparr>) (Some unauthorized))
   \<and> sent (snd (apiClient (server [answered 401, granted ''newer'', answered 401])
      get_images (browser (Some ''fresh''))))
     = [get_images\<lparr>Authorization := Some ''Bearer fresh''\<rparr>,
        post_refresh,
        get_images\<lparr>Authorization := Some ''Bearer newer'', retry := True\<rparr>]
   \<and> response_onRejected (server [])
        (AxiosError (get_images\<lparr>Authorization := Some ''Bearer newer'', retry := True\<rparr>) (Some unauthorized))
        (browser (Some ''newer''))
     = (Inl (AxiosError (get_images\<lparr>Authorization := Some ''Bearer newer'', retry := True\<rparr>) (Some unauthorized)),
        browser (Some ''newer''))"
proof -
  let ?e = "server [answered 401, granted ''newer'', answered 401]"
  let ?c = "get_images\<lparr>Authorization := Some ''Bearer fresh''\<rparr>"
  let ?c' = "get_images\<lparr>Authorization := Some ''Bearer newer'', retry := True\<rparr>"
  let ?w = "browser (Some ''fresh'')"
  let ?w1 = "?w\<lparr>sent := [?c], clock := 1000005\<rparr>"
  have start: "apiClient ?e get_images ?w = response_onRejected ?e (AxiosError ?c (Some unauthorized)) ?w1"
    by (simp add: apiClient.simps run scenario ops unauthorized_def)
  have hyp: "status unauthorized = 401 \<and> \<not> retry ?c \<and> has_window ?w1
        \<and> fst (refreshAccessToken ?e ?w1) = Inr (Some ''newer'')
        \<and> \<not> fst (isTokenExpired ?e ''newer'' (snd (refreshAccessToken ?e ?w1)))
        \<and> net ?e (sent (snd (refreshAccessToken ?e ?w1)))
              (?c\<lparr>retry := True, Authorization := Some (''Bearer '' @ ''newer'')\<rparr>) = (5, Answered unauthorized)
        \<and> status unauthorized = 401"
    by (simp add: run scenario ops unauthorized_def)
  have r: "retry ?c'" by simp
  note t = retried_request_is_not_retried_again [of ?c' "server []" "Some unauthorized" "browser (Some ''newer'')"]
    and u = retried_request_is_not_retried_again [of ?c ?e _ ?w1 unauthorized "''newer''" 5 unauthorized]
  from t r have 1: "response_onRejected (server []) (AxiosError ?c' (Some unauthorized)) (browser (Some ''newer''))
     = (Inl (AxiosError ?c' (Some unauthorized)), browser (Some ''newer''))"
    by blast
  from u hyp have 2: "fst (response_onRejected ?e (AxiosError ?c (Some unauthorized)) ?w1)
            = Inl (AxiosError (?c\<lparr>retry := True, Authorization := Some (''Bearer '' @ ''newer'')\<rparr>) (Some unauthorized))
          \<and> sent (snd (response_onRejected ?e (AxiosError ?c (Some unauthorized)) ?w1))
            = sent ?w1 @ [refresh_request ?e, ?c\<lparr>retry := True, Authorization := Some (''Bearer '' @ ''newer'')\<rparr>]"
    by blast
  from start 1 2 show ?thesis by (simp add: scenario)
qed

subsection \<open>Facts about the Authorization header of the requests sent\<close>

lemma refreshAccessToken_granted_by_net:
  assumes "fst (refreshAccessToken e w) = Inr (Some t)"
  shows "\<exists>ms r. net e (sent w) (refresh_request e) = (ms, Answered r) \<and> accessToken (rdata r) = Some t"
  using assms
  by (auto simp add: refreshAccessToken_def refresh_attempt_cases Let_def truthy_def
        split: prod.splits outcome.splits if_splits option.splits)

lemma isTokenExpired_by_exp:
  assumes "jwtDecode e t = Some p" and "exp p = Some x" and "1000 * x \<le> int (clock w)"
  shows "isTokenExpired e t w = (True, w)"
  using assms by (simp add: isTokenExpired_def)

lemma apiClient_rejected_by_interceptor:
  assumes "request_interceptor e c w = (Inl err, w1)"
  shows "apiClient e c w = (Inl err, w1)"
proof -
  from assms have "err = Error ''Session expired. Please login again.''"
    by (rule request_interceptor_rejects_Error)
  with assms show ?thesis by (simp add: apiClient.simps response_onRejected_Error)
qed

lemma apiClient_sent_after_interceptor:
  "\<exists>ys. sent (snd (apiClient e c w)) = sent (snd (request_interceptor e c w)) @ ys"
proof -
  obtain a w1 where ri: "request_interceptor e c w = (a, w1)" by (cases "request_interceptor e c w")
  show ?thesis
  proof (cases a)
    case (Inl err)
    with ri show ?thesis by (simp add: apiClient_rejected_by_interceptor)
  next
    case (Inr c1)
    obtain b w2 where d: "dispatchRequest e c1 w1 = (b, w2)" by (cases "dispatchRequest e c1 w1")
    then have s2: "sent w2 = sent w1 @ [c1]" using dispatchRequest_sent [of e c1 w1] by simp
    show ?thesis
    proof (cases b)
      case (Inr resp)
      with ri \<open>a = Inr c1\<close> d s2 show ?thesis by (simp add: apiClient.simps)
    next
      case (Inl err)
      obtain ys where "sent (snd (response_onRejected e err w2)) = sent w2 @ ys"
        using response_onRejected_sent by blast
      with ri \<open>a = Inr c1\<close> d s2 Inl show ?thesis by (simp add: apiClient.simps)
    qed
  qed
qed

lemma refresh_holds_other:
  assumes "never_grants e t" and "has_window w" and "fst (refreshAccessToken e w) = Inr (Some s)"
  shows "s \<noteq> t" and "holds_other t (snd (refreshAccessToken e w))"
proof -
  from assms(3) obtain ms r where "net e (sent w) (refresh_request e) = (ms, Answered r)"
      "accessToken (rdata r) = Some s"
    using refreshAccessToken_granted_by_net by blast
  with assms(1) show "s \<noteq> t" by (auto simp: never_grants_def)
  moreover from assms(3) have "s \<noteq> []" by (rule refreshAccessToken_token)
  moreover from assms(2,3) have "getItem ''accessToken'' (snd (refreshAccessToken e w)) = Some s"
    by (simp add: refreshAccessToken_token)
  ultimately show "holds_other t (snd (refreshAccessToken e w))" by (simp add: holds_other_def)
qed

lemma bearer_inject: "(''Bearer '' @ s = ''Bearer '' @ t) = (s = t)"
  by simp

lemma request_interceptor_other:
  assumes "never_grants e t" and "has_window w" and "holds_other t w"
  shows "\<exists>xs. sent (snd (request_interceptor e c w)) = sent w @ xs
           \<and> (\<forall>q\<in>set xs. Authorization q \<noteq> Some (''Bearer '' @ t))
           \<and> (\<forall>c1. fst (request_interceptor e c w) = Inr c1 \<longrightarrow> Authorization c1 \<noteq> Some (''Bearer '' @ t))"
proof -
  from assms(3) obtain s where s: "getItem ''accessToken'' w = Some s" "s \<noteq> []" "s \<noteq> t"
    by (auto simp: holds_other_def split: option.splits)
  show ?thesis
  proof (cases "fst (isTokenExpired e s w)")
    case False
    with s show ?thesis by (simp add: request_interceptor_valid)
  next
    case True
    let ?v = "snd (isTokenExpired e s w)"
    have hw: "has_window ?v" using assms(2) by (simp add: isTokenExpired_world console_log_def)
    have eq: "request_interceptor e c w =
           (case fst (refreshAccessToken e ?v) of
              Inr (Some t') \<Rightarrow>
                (Inr (c\<lparr>Authorization := Some (''Bearer '' @ t')\<rparr>), snd (refreshAccessToken e ?v))
            | _ \<Rightarrow>
                (Inl (Error ''Session expired. Please login again.''),
                 redirect ''/login'' (removeItem ''accessToken''
                   (setAuth e False None (snd (refreshAccessToken e ?v))))))"
      using s True by (simp add: request_interceptor_expired)
    have sn: "sent (snd (request_interceptor e c w)) = sent w @ [refresh_request e]"
      by (simp add: eq refreshAccessToken_sent isTokenExpired_sent
            redirect_def removeItem_def setAuth_def set_state_def setItem_def truthy_def Let_def
            split: sum.splits option.splits)
    have "\<forall>c1. fst (request_interceptor e c w) = Inr c1 \<longrightarrow> Authorization c1 \<noteq> Some (''Bearer '' @ t)"
    proof (intro allI impI)
      fix c1 assume a: "fst (request_interceptor e c w) = Inr c1"
      then obtain t' where t': "fst (refreshAccessToken e ?v) = Inr (Some t')"
          "c1 = c\<lparr>Authorization := Some (''Bearer '' @ t')\<rparr>"
        by (auto simp add: eq split: sum.splits option.splits)
      from assms(1) hw t'(1) have "t' \<noteq> t" by (rule refresh_holds_other)
      with t'(2) show "Authorization c1 \<noteq> Some (''Bearer '' @ t)" by simp
    qed
    with sn show ?thesis by (simp add: refresh_request_def)
  qed
qed

lemma apiClient_retried_other:
  assumes "never_grants e t" and "has_window w" and "holds_other t w" and "retry c"
  shows "\<exists>xs. sent (snd (apiClient e c w)) = sent w @ xs
           \<and> (\<forall>q\<in>set xs. Authorization q \<noteq> Some (''Bearer '' @ t))"
proof -
  obtain xs where xs: "sent (snd (request_interceptor e c w)) = sent w @ xs"
      "\<forall>q\<in>set xs. Authorization q \<noteq> Some (''Bearer '' @ t)"
      "\<forall>c1. fst (request_interceptor e c w) = Inr c1 \<longrightarrow> Authorization c1 \<noteq> Some (''Bearer '' @ t)"
    using request_interceptor_other [OF assms(1,2,3), of c] by blast
  obtain a w1 where ri: "request_interceptor e c w = (a, w1)" by (cases "request_interceptor e c w")
  show ?thesis
  proof (cases a)
    case (Inl err)
    with ri xs assms(4) show ?thesis by (simp add: apiClient_retried)
  next
    case (Inr c1)
    with ri xs assms(4) have "sent (snd (apiClient e c w)) = sent w @ (xs @ [c1])"
      by (simp add: apiClient_retried dispatchRequest_sent)
    moreover have "\<forall>q\<in>set (xs @ [c1]). Authorization q \<noteq> Some (''Bearer '' @ t)"
      using xs ri Inr by simp
    ultimately show ?thesis by blast
  qed
qed

lemma response_onRejected_other:
  assumes "never_grants e t" and "has_window w"
  shows "\<exists>xs. sent (snd (response_onRejected e err w)) = sent w @ xs
           \<and> (\<forall>q\<in>set xs. Authorization q \<noteq> Some (''Bearer '' @ t))"
proof (cases "\<exists>c r. err = AxiosError c (Some r) \<and> status r = 401 \<and> \<not> retry c")
  case False
  then have "response_onRejected e err w = (Inl err, w)"
    by (auto simp add: response_onRejected.simps split: js_error.splits option.splits)
  then show ?thesis by simp
next
  case True
  then obtain c r where err: "err = AxiosError c (Some r)" "status r = 401" "\<not> retry c" by blast
  obtain v w1 where rf: "refreshAccessToken e w = (v, w1)" by (cases "refreshAccessToken e w")
  then have s1: "sent w1 = sent w @ [refresh_request e]"
    using refreshAccessToken_sent [of e w] by simp
  from rf have hw1: "has_window w1" using refreshAccessToken_has_window [of e w] assms(2) by simp
  show ?thesis
  proof (cases "\<exists>s. v = Inr (Some s) \<and> s \<noteq> []")
    case False
    then have "sent (snd (response_onRejected e err w)) = sent w @ [refresh_request e]"
      using err rf s1
      by (auto simp add: response_onRejected.simps redirect_def removeItem_def setAuth_def
            set_state_def setItem_def truthy_def Let_def toast_error_def console_log_def
            split: sum.splits option.splits)
    then show ?thesis by (simp add: refresh_request_def)
  next
    case True
    then obtain s where s: "v = Inr (Some s)" "s \<noteq> []" by blast
    let ?c' = "c\<lparr>retry := True, Authorization := Some (''Bearer '' @ s)\<rparr>"
    have eq: "response_onRejected e err w = apiClient e ?c' w1"
      using err rf s by (simp add: response_onRejected.simps truthy_def)
    from rf s have "fst (refreshAccessToken e w) = Inr (Some s)" by simp
    with assms have "holds_other t (snd (refreshAccessToken e w))" by (rule refresh_holds_other)
    with rf have ho: "holds_other t w1" by simp
    obtain ys where ys: "sent (snd (apiClient e ?c' w1)) = sent w1 @ ys"
        "\<forall>q\<in>set ys. Authorization q \<noteq> Some (''Bearer '' @ t)"
      using apiClient_retried_other [OF assms(1) hw1 ho, of ?c'] by auto
    have "sent (snd (response_onRejected e err w)) = sent w @ (refresh_request e # ys)"
      using eq ys s1 by simp
    moreover have "\<forall>q\<in>set (refresh_request e # ys). Authorization q \<noteq> Some (''Bearer '' @ t)"
      using ys by (simp add: refresh_request_def)
    ultimately show ?thesis by blast
  qed
qed


lemma request_interceptor_expired_cases:
  assumes "getItem ''accessToken'' w = Some t" and "t \<noteq> []" and "isTokenExpired e t w = (True, w0)"
  shows "request_interceptor e c w =
           (case fst (refreshAccessToken e w0) of
              Inr (Some t') \<Rightarrow>
                (Inr (c\<lparr>Authorization := Some (''Bearer '' @ t')\<rparr>), snd (refreshAccessToken e w0))
            | _ \<Rightarrow>
                (Inl (Error ''Session expired. Please login again.''),
                 redirect ''/login'' (removeItem ''accessToken''
                   (setAuth e False None (snd (refreshAccessToken e w0))))))"
  using request_interceptor_expired [OF assms(1,2), of e c] assms(3)
  by (simp split: sum.splits option.splits)

lemma isTokenExpired_keeps:
  assumes "isTokenExpired e t w = (b, w0)"
  shows "sent w0 = sent w" and "has_window w0 = has_window w"
  using assms isTokenExpired_world [of e t w] by (auto simp add: console_log_def)

lemma apiClient_expired_other:
  assumes nv: "never_grants e t" and hw: "has_window w"
    and st: "getItem ''accessToken'' w = Some t" "t \<noteq> []"
    and ex: "isTokenExpired e t w = (True, w0)"
  shows "\<exists>xs. sent (snd (apiClient e c w)) = sent w @ xs
           \<and> (\<forall>q\<in>set xs. Authorization q \<noteq> Some (''Bearer '' @ t))"
proof -
  note eq = request_interceptor_expired_cases [OF st ex, of c]
  note k = isTokenExpired_keeps [OF ex]
  show ?thesis
  proof (cases "\<exists>s. fst (refreshAccessToken e w0) = Inr (Some s)")
    case False
    then obtain w1 where ri: "request_interceptor e c w = (Inl (Error ''Session expired. Please login again.''), w1)"
        and w1: "w1 = redirect ''/login'' (removeItem ''accessToken''
                   (setAuth e False None (snd (refreshAccessToken e w0))))"
      by (auto simp add: eq split: sum.splits option.splits)
    have "sent (snd (apiClient e c w)) = sent w @ [refresh_request e]"
      using apiClient_rejected_by_interceptor [OF ri] w1 k
      by (simp add: refreshAccessToken_sent ops)
    then show ?thesis by (simp add: refresh_request_def)
  next
    case True
    then obtain s where s: "fst (refreshAccessToken e w0) = Inr (Some s)" by blast
    let ?w1 = "snd (refreshAccessToken e w0)"
    let ?c1 = "c\<lparr>Authorization := Some (''Bearer '' @ s)\<rparr>"
    from hw k have hw0: "has_window w0" by simp
    from nv hw0 s have ne: "s \<noteq> t" by (rule refresh_holds_other)
    have ri: "request_interceptor e c w = (Inr ?c1, ?w1)" using s by (simp add: eq)
    have hw1: "has_window ?w1" using hw0 by (simp add: refreshAccessToken_has_window)
    obtain b w2 where d: "dispatchRequest e ?c1 ?w1 = (b, w2)" by (cases "dispatchRequest e ?c1 ?w1")
    then have s2: "sent w2 = sent w @ [refresh_request e, ?c1]"
      using dispatchRequest_sent [of e ?c1 ?w1] k by (simp add: refreshAccessToken_sent)
    from d have hw2: "has_window w2"
      using hw1 by (auto simp add: dispatchRequest_def Let_def split: prod.splits outcome.splits if_splits)
    show ?thesis
    proof (cases b)
      case (Inr resp)
      with ri d have "apiClient e c w = (Inr resp, w2)" by (simp add: apiClient.simps)
      with s2 ne show ?thesis by (simp add: refresh_request_def)
    next
      case (Inl err)
      with ri d have a: "apiClient e c w = response_onRejected e err w2" by (simp add: apiClient.simps)
      obtain ys where ys: "sent (snd (response_onRejected e err w2)) = sent w2 @ ys"
          "\<forall>q\<in>set ys. Authorization q \<noteq> Some (''Bearer '' @ t)"
        using response_onRejected_other [OF nv hw2] by blast
      have "sent (snd (apiClient e c w)) = sent w @ ([refresh_request e, ?c1] @ ys)"
        using a ys s2 by simp
      moreover have "\<forall>q\<in>set ([refresh_request e, ?c1] @ ys). Authorization q \<noteq> Some (''Bearer '' @ t)"
        using ys ne by (simp add: refresh_request_def)
      ultimately show ?thesis by blast
    qed
  qed
qed

lemma apiClient_expired_refresh_first:
  assumes st: "getItem ''accessToken'' w = Some t" "t \<noteq> []"
    and ex: "isTokenExpired e t w = (True, w0)"
  shows "\<exists>ys. sent (snd (apiClient e c w)) = sent w @ refresh_request e # ys"
proof -
  note eq = request_interceptor_expired_cases [OF st ex, of c]
  have "sent (snd (request_interceptor e c w)) = sent w @ [refresh_request e]"
    using isTokenExpired_keeps [OF ex]
    by (simp add: eq refreshAccessToken_sent ops split: sum.splits option.splits)
  then show ?thesis using apiClient_sent_after_interceptor [of e c w] by auto
qed

lemma apiClient_expired_refresh_fails:
  assumes st: "getItem ''accessToken'' w = Some t" "t \<noteq> []"
    and ex: "isTokenExpired e t w = (True, w0)"
    and rf: "fst (refreshAccessToken e w0) = Inr None"
  shows "apiClient e c w
           = (Inl (Error ''Session expired. Please login again.''),
              redirect ''/login'' (removeItem ''accessToken''
                (setAuth e False None (snd (refreshAccessToken e w0)))))"
proof -
  have "request_interceptor e c w = (Inl (Error ''Session expired. Please login again.''),
                 redirect ''/login'' (removeItem ''accessToken''
                   (setAuth e False None (snd (refreshAccessToken e w0)))))"
    using rf by (simp add: request_interceptor_expired_cases [OF st ex])
  then show ?thesis by (rule apiClient_rejected_by_interceptor)
qed

subsection \<open>A stored token that has expired\<close>

text \<open>
  Claim C2 says that the expired token is never attached to a request that is sent. The
  interceptor attaches whatever the refresh returns and compares it with nothing: here
  the browser holds \<^verbatim>\<open>stale\<close>, whose \<^verbatim>\<open>exp\<close> (990 s) the clock (1000 s) has passed,
  the refresh returns \<^verbatim>\<open>stale\<close> again, and the request goes out with
  \<^verbatim>\<open>Bearer stale\<close>.
\<close>

theorem refresh_may_return_the_expired_token:
  "getItem ''accessToken'' (browser (Some ''stale'')) = Some ''stale''
   \<and> jwtDecode (server [granted ''stale'', answered 200]) ''stale'' = Some \<lparr>exp = Some 990\<rparr>
   \<and> 1000 * 990 \<le> int (clock (browser (Some ''stale'')))
   \<and> sent (snd (apiClient (server [granted ''stale'', answered 200]) get_images (browser (Some ''stale''))))
      = [post_refresh, get_images\<lparr>Authorization := Some ''Bearer stale''\<rparr>]"
  by (simp add: apiClient.simps response_onRejected.simps run scenario ops)

text \<open>
  Claim C2, amended. When the stored token's \<^verbatim>\<open>exp\<close> is not after the clock, the
  refresh call is the first request the client puts on the network; the request
  interceptor attaches \<^verbatim>\<open>Bearer\<close> and the token the refresh returned; when the refresh
  returns \<^verbatim>\<open>null\<close> the request is not sent and the caller gets the session-expired
  error. In a browser, no request of the whole run carries the expired token, unless the
  server hands that very token out again.
\<close>

theorem expired_token_is_refreshed_before_sending:
  assumes "getItem ''accessToken'' w = Some t" and "t \<noteq> []"
    and "jwtDecode e t = Some p" and "exp p = Some x" and "1000 * x \<le> int (clock w)"
  shows "(\<exists>ys. sent (snd (apiClient e c w)) = sent w @ refresh_request e # ys)
       \<and> (\<forall>s. fst (refreshAccessToken e w) = Inr (Some s)
            \<longrightarrow> request_interceptor e c w
                  = (Inr (c\<lparr>Authorization := Some (''Bearer '' @ s)\<rparr>), snd (refreshAccessToken e w)))
       \<and> (fst (refreshAccessToken e w) = Inr None
            \<longrightarrow> fst (apiClient e c w) = Inl (Error ''Session expired. Please login again.'')
                \<and> sent (snd (apiClient e c w)) = sent w @ [refresh_request e])
       \<and> (has_window w
            \<and> (\<forall>h q ms r. net e h q = (ms, Answered r) \<longrightarrow> accessToken (rdata r) \<noteq> Some t)
            \<longrightarrow> (\<exists>xs. sent (snd (apiClient e c w)) = sent w @ xs
                    \<and> (\<forall>q\<in>set xs. Authorization q \<noteq> Some (''Bearer '' @ t))))"
proof -
  have ex: "isTokenExpired e t w = (True, w)"
    using assms(3,4,5) by (rule isTokenExpired_by_exp)
  note eq = request_interceptor_expired_cases [OF assms(1,2) ex, of c]
  have 1: "\<exists>ys. sent (snd (apiClient e c w)) = sent w @ refresh_request e # ys"
    using assms(1,2) ex by (rule apiClient_expired_refresh_first)
  have 2: "\<forall>s. fst (refreshAccessToken e w) = Inr (Some s)
            \<longrightarrow> request_interceptor e c w
                  = (Inr (c\<lparr>Authorization := Some (''Bearer '' @ s)\<rparr>), snd (refreshAccessToken e w))"
    by (simp add: eq)
  have 3: "fst (refreshAccessToken e w) = Inr None
            \<longrightarrow> fst (apiClient e c w) = Inl (Error ''Session expired. Please login again.'')
                \<and> sent (snd (apiClient e c w)) = sent w @ [refresh_request e]"
    by (simp add: apiClient_expired_refresh_fails [OF assms(1,2) ex] refreshAccessToken_sent ops)
  have 4: "has_window w
            \<and> (\<forall>h q ms r. net e h q = (ms, Answered r) \<longrightarrow> accessToken (rdata r) \<noteq> Some t)
            \<longrightarrow> (\<exists>xs. sent (snd (apiClient e c w)) = sent w @ xs
                    \<and> (\<forall>q\<in>set xs. Authorization q \<noteq> Some (''Bearer '' @ t)))"
  proof
    assume a: "has_window w
            \<and> (\<forall>h q ms r. net e h q = (ms, Answered r) \<longrightarrow> accessToken (rdata r) \<noteq> Some t)"
    then have "never_grants e t" by (simp add: never_grants_def)
    with a assms(1,2) ex show "\<exists>xs. sent (snd (apiClient e c w)) = sent w @ xs
                    \<and> (\<forall>q\<in>set xs. Authorization q \<noteq> Some (''Bearer '' @ t))"
      using apiClient_expired_other [of e t w w c] by simp
  qed
  from 1 2 3 4 show ?thesis by blast
qed

theorem expired_token_is_refreshed_before_sending_witness:
  "fst (request_interceptor (server [granted ''newer'', answered 200]) get_images (browser (Some ''stale'')))
     = Inr (get_images\<lparr>Authorization := Some ''Bearer newer''\<rparr>)
   \<and> hd (sent (snd (apiClient (server [granted ''newer'', answered 200]) get_images (browser (Some ''stale'')))))
     = post_refresh
   \<and> Some ''Bearer stale'' \<notin> Authorization ` set (sent (snd (apiClient (server [granted ''newer'', answered 200]) get_images (browser (Some ''stale'')))))
   \<and> fst (apiClient (server [answered 500]) get_images (browser (Some ''stale'')))
     = Inl (Error ''Session expired. Please login again.'')
   \<and> sent (snd (apiClient (server [answered 500]) get_images (browser (Some ''stale'')))) = [post_refresh]"
proof -
  let ?e = "server [granted ''newer'', answered 200]"
  let ?f = "server [answered 500]"
  let ?w = "browser (Some ''stale'')"
  have 1: "getItem ''accessToken'' ?w = Some ''stale''" by (simp add: getItem_def browser_def)
  have 2: "''stale'' \<noteq> []" by simp
  have 3: "jwtDecode ?e ''stale'' = Some \<lparr>exp = Some 990\<rparr>" "jwtDecode ?f ''stale'' = Some \<lparr>exp = Some 990\<rparr>"
    by (simp_all add: server_def decoder_def)
  have 4: "exp \<lparr>exp = Some 990\<rparr> = Some 990" by simp
  have 5: "1000 * 990 \<le> int (clock ?w)" by (simp add: browser_def)
  have 6: "fst (refreshAccessToken ?e ?w) = Inr (Some ''newer'')" by (simp add: run scenario ops)
  have 7: "fst (refreshAccessToken ?f ?w) = Inr None" by (simp add: run scenario ops)
  have 8: "has_window ?w \<and> (\<forall>h q ms r. net ?e h q = (ms, Answered r) \<longrightarrow> accessToken (rdata r) \<noteq> Some ''stale'')"
    by (auto simp add: scenario nth_Cons' split: if_splits)
  note a = expired_token_is_refreshed_before_sending [OF 1 2 3(1) 4 5, of get_images] and b = expired_token_is_refreshed_before_sending [OF 1 2 3(2) 4 5, of get_images]
  from a 6 have i: "fst (request_interceptor ?e get_images ?w) = Inr (get_images\<lparr>Authorization := Some ''Bearer newer''\<rparr>)"
    by simp
  from a have ii: "hd (sent (snd (apiClient ?e get_images ?w))) = post_refresh"
    by (auto simp add: scenario)
  from a 8 obtain xs where "sent (snd (apiClient ?e get_images ?w)) = sent ?w @ xs"
      "\<forall>q\<in>set xs. Authorization q \<noteq> Some (''Bearer '' @ ''stale'')"
    by blast
  then have iii: "Some ''Bearer stale'' \<notin> Authorization ` set (sent (snd (apiClient ?e get_images ?w)))"
    by (auto simp add: browser_def)
  from b 7 have iv: "fst (apiClient ?f get_images ?w) = Inl (Error ''Session expired. Please login again.'')
     \<and> sent (snd (apiClient ?f get_images ?w)) = [post_refresh]"
    by (simp add: scenario)
  from i ii iii iv show ?thesis by simp
qed

subsection \<open>A stored token that cannot be decoded\<close>

text \<open>
  Claim C8 says that a token on which decoding fails is never sent. The check itself
  fails closed, but the token a refresh returns is attached without being decoded: here
  the browser holds \<^verbatim>\<open>junk\<close>, which the decoder rejects, the refresh returns
  \<^verbatim>\<open>junk\<close> again, and the request goes out with \<^verbatim>\<open>Bearer junk\<close>.
\<close>

theorem refresh_may_return_an_undecodable_token:
  "jwtDecode (server [granted ''junk'', answered 200]) ''junk'' = None
   \<and> getItem ''accessToken'' (browser (Some ''junk'')) = Some ''junk''
   \<and> sent (snd (apiClient (server [granted ''junk'', answered 200]) get_images (browser (Some ''junk''))))
      = [post_refresh, get_images\<lparr>Authorization := Some ''Bearer junk''\<rparr>]"
  by (simp add: apiClient.simps response_onRejected.simps run scenario ops)

text \<open>
  Claim C8, amended. On every string on which \<^verbatim>\<open>jwtDecode\<close> throws,
  \<^verbatim>\<open>isTokenExpired\<close> returns true (and logs the error). So when such a string is the
  stored token, the client refreshes before it sends anything, attaches the token the
  refresh returned (which it does not decode), and sends nothing but the refresh call
  when the refresh returns \<^verbatim>\<open>null\<close>. In a browser, no request of the run carries the
  stored string, unless the server hands that very string out again.
\<close>

theorem undecodable_token_is_treated_as_expired:
  assumes "jwtDecode e t = None"
  shows "fst (isTokenExpired e t w)
       \<and> (getItem ''accessToken'' w = Some t \<and> t \<noteq> [] \<longrightarrow>
            (\<exists>ys. sent (snd (apiClient e c w)) = sent w @ refresh_request e # ys)
          \<and> (\<forall>s. fst (refreshAccessToken e (console_log ''Error decoding token:'' w)) = Inr (Some s)
               \<longrightarrow> fst (request_interceptor e c w) = Inr (c\<lparr>Authorization := Some (''Bearer '' @ s)\<rparr>))
          \<and> (fst (refreshAccessToken e (console_log ''Error decoding token:'' w)) = Inr None
               \<longrightarrow> fst (apiClient e c w) = Inl (Error ''Session expired. Please login again.'')
                   \<and> sent (snd (apiClient e c w)) = sent w @ [refresh_request e])
          \<and> (has_window w
               \<and> (\<forall>h q ms r. net e h q = (ms, Answered r) \<longrightarrow> accessToken (rdata r) \<noteq> Some t)
               \<longrightarrow> (\<exists>xs. sent (snd (apiClient e c w)) = sent w @ xs
                       \<and> (\<forall>q\<in>set xs. Authorization q \<noteq> Some (''Bearer '' @ t)))))"
proof (intro conjI impI)
  let ?v = "console_log ''Error decoding token:'' w"
  have ex: "isTokenExpired e t w = (True, ?v)"
    using assms by (simp add: isTokenExpired_def)
  then show "fst (isTokenExpired e t w)" by simp
  assume "getItem ''accessToken'' w = Some t \<and> t \<noteq> []"
  then have st: "getItem ''accessToken'' w = Some t" "t \<noteq> []" by simp_all
  note eq = request_interceptor_expired_cases [OF st ex, of c]
  show "\<exists>ys. sent (snd (apiClient e c w)) = sent w @ refresh_request e # ys"
    using st ex by (rule apiClient_expired_refresh_first)
  show "\<forall>s. fst (refreshAccessToken e ?v) = Inr (Some s)
               \<longrightarrow> fst (request_interceptor e c w) = Inr (c\<lparr>Authorization := Some (''Bearer '' @ s)\<rparr>)"
    by (simp add: eq)
  {
    assume "fst (refreshAccessToken e ?v) = Inr None"
    then have a: "apiClient e c w
           = (Inl (Error ''Session expired. Please login again.''),
              redirect ''/login'' (removeItem ''accessToken''
                (setAuth e False None (snd (refreshAccessToken e ?v)))))"
      using st ex by (simp add: apiClient_expired_refresh_fails)
    show "fst (apiClient e c w) = Inl (Error ''Session expired. Please login again.'')"
      by (simp add: a)
    show "sent (snd (apiClient e c w)) = sent w @ [refresh_request e]"
      by (simp add: a refreshAccessToken_sent ops)
  }
  assume a: "has_window w
            \<and> (\<forall>h q ms r. net e h q = (ms, Answered r) \<longrightarrow> accessToken (rdata r) \<noteq> Some t)"
  then have "never_grants e t" by (simp add: never_grants_def)
  with a st ex show "\<exists>xs. sent (snd (apiClient e c w)) = sent w @ xs
                    \<and> (\<forall>q\<in>set xs. Authorization q \<noteq> Some (''Bearer '' @ t))"
    using apiClient_expired_other [of e t w ?v c] by simp
qed

theorem undecodable_token_is_treated_as_expired_witness:
  "fst (isTokenExpired (server [granted ''newer'', answered 200]) ''junk'' (browser (Some ''junk'')))
   \<and> fst (request_interceptor (server [granted ''newer'', answered 200]) get_images (browser (Some ''junk'')))
     = Inr (get_images\<lparr>Authorization := Some ''Bearer newer''\<rparr>)
   \<and> hd (sent (snd (apiClient (server [granted ''newer'', answered 200]) get_images (browser (Some ''junk'')))))
     = post_refresh
   \<and> Some ''Bearer junk'' \<notin> Authorization ` set (sent (snd (apiClient (server [granted ''newer'', answered 200]) get_images (browser (Some ''junk'')))))
   \<and> fst (apiClient (server []) get_images (browser (Some ''junk'')))
     = Inl (Error ''Session expired. Please login again.'')
   \<and> sent (snd (apiClient (server []) get_images (browser (Some ''junk'')))) = [post_refresh]"
proof -
  let ?e = "server [granted ''newer'', answered 200]"
  let ?f = "server []"
  let ?w = "browser (Some ''junk'')"
  let ?v = "console_log ''Error decoding token:'' ?w"
  have 1: "jwtDecode ?e ''junk'' = None" "jwtDecode ?f ''junk'' = None"
    by (simp_all add: server_def decoder_def)
  have 2: "getItem ''accessToken'' ?w = Some ''junk'' \<and> ''junk'' \<noteq> []" by (simp add: getItem_def browser_def)
  have 6: "fst (refreshAccessToken ?e ?v) = Inr (Some ''newer'')" by (simp add: run scenario ops)
  have 7: "fst (refreshAccessToken ?f ?v) = Inr None" by (simp add: run scenario ops)
  have 8: "has_window ?w \<and> (\<forall>h q ms r. net ?e h q = (ms, Answered r) \<longrightarrow> accessToken (rdata r) \<noteq> Some ''junk'')"
    by (auto simp add: scenario nth_Cons' split: if_splits)
  note a = undecodable_token_is_treated_as_expired [OF 1(1), of ?w get_images] and b = undecodable_token_is_treated_as_expired [OF 1(2), of ?w get_images]
  from a have o: "fst (isTokenExpired ?e ''junk'' ?w)" by simp
  from a 2 6 have i: "fst (request_interceptor ?e get_images ?w) = Inr (get_images\<lparr>Authorization := Some ''Bearer newer''\<rparr>)"
    by simp
  from a 2 have ii: "hd (sent (snd (apiClient ?e get_images ?w))) = post_refresh"
    by (auto simp add: scenario)
  from a 2 8 obtain xs where "sent (snd (apiClient ?e get_images ?w)) = sent ?w @ xs"
      "\<forall>q\<in>set xs. Authorization q \<noteq> Some (''Bearer '' @ ''junk'')"
    by blast
  then have iii: "Some ''Bearer junk'' \<notin> Authorization ` set (sent (snd (apiClient ?e get_images ?w)))"
    by (auto simp add: browser_def)
  from b 2 7 have iv: "fst (apiClient ?f get_images ?w) = Inl (Error ''Session expired. Please login again.'')
     \<and> sent (snd (apiClient ?f get_images ?w)) = [post_refresh]"
    by (simp add: scenario)
  from o i ii iii iv show ?thesis by simp
qed

subsection \<open>When the refresh fails\<close>

text \<open>
  What the two places that call the refresh do when it returns \<^verbatim>\<open>null\<close>, in a browser.
  Before sending: the request is not sent and fails with the session-expired error, the
  stored token is removed, the session is unauthenticated, and
  \<^verbatim>\<open>window.location.href\<close> is assigned once. After a 401: the same, with a toast, and
  the caller gets the 401 error. In both places the path assigned is \<^verbatim>\<open>/login\<close>.
\<close>

lemma refreshAccessToken_href: "href (snd (refreshAccessToken e w)) = href w"
  by (simp add: refreshAccessToken_def refresh_attempt_cases ops split: prod.splits outcome.splits)

lemma refreshAccessToken_toasts: "toasts (snd (refreshAccessToken e w)) = toasts w"
  by (simp add: refreshAccessToken_def refresh_attempt_cases ops split: prod.splits outcome.splits)

lemma refresh_failure_before_sending:
  assumes "getItem ''accessToken'' w = Some t" and "t \<noteq> []"
    and "isTokenExpired e t w = (True, w0)"
    and "fst (refreshAccessToken e w0) = Inr None" and "has_window w"
  shows "fst (apiClient e c w) = Inl (Error ''Session expired. Please login again.'')"
    and "sent (snd (apiClient e c w)) = sent w @ [refresh_request e]"
    and "getItem ''accessToken'' (snd (apiClient e c w)) = None"
    and "\<not> isAuthenticated (store (snd (apiClient e c w)))"
    and "href (snd (apiClient e c w)) = href w @ [''/login'']"
proof -
  note a = apiClient_expired_refresh_fails [OF assms(1,2,3,4), of c]
  note k = isTokenExpired_keeps [OF assms(3)]
  have h0: "href w0 = href w"
    using assms(3) isTokenExpired_world [of e t w] by (auto simp add: console_log_def)
  show "fst (apiClient e c w) = Inl (Error ''Session expired. Please login again.'')"
    by (simp add: a)
  show "sent (snd (apiClient e c w)) = sent w @ [refresh_request e]"
    using k by (simp add: a refreshAccessToken_sent ops)
  show "getItem ''accessToken'' (snd (apiClient e c w)) = None"
    by (simp add: a ops)
  show "\<not> isAuthenticated (store (snd (apiClient e c w)))"
    by (simp add: a ops)
  show "href (snd (apiClient e c w)) = href w @ [''/login'']"
    using k assms(5) h0
    by (simp add: a refreshAccessToken_has_window refreshAccessToken_href ops)
qed

lemma refresh_failure_after_401:
  assumes "status r = 401" and "\<not> retry c" and "fst (refreshAccessToken e w) = Inr None"
    and "has_window w"
  shows "fst (response_onRejected e (AxiosError c (Some r)) w)
           = Inl (AxiosError (c\<lparr>retry := True\<rparr>) (Some r))"
    and "sent (snd (response_onRejected e (AxiosError c (Some r)) w)) = sent w @ [refresh_request e]"
    and "getItem ''accessToken'' (snd (response_onRejected e (AxiosError c (Some r)) w)) = None"
    and "\<not> isAuthenticated (store (snd (response_onRejected e (AxiosError c (Some r)) w)))"
    and "href (snd (response_onRejected e (AxiosError c (Some r)) w)) = href w @ [''/login'']"
    and "toasts (snd (response_onRejected e (AxiosError c (Some r)) w))
           = toasts w @ [Some ''Session expired. Please login again.'']"
proof -
  note a = response_onRejected_refresh_fails [OF assms(1,2,3)]
  show "fst (response_onRejected e (AxiosError c (Some r)) w)
           = Inl (AxiosError (c\<lparr>retry := True\<rparr>) (Some r))"
    by (simp add: a)
  show "sent (snd (response_onRejected e (AxiosError c (Some r)) w)) = sent w @ [refresh_request e]"
    by (simp add: a refreshAccessToken_sent ops)
  show "getItem ''accessToken'' (snd (response_onRejected e (AxiosError c (Some r)) w)) = None"
    by (simp add: a ops)
  show "\<not> isAuthenticated (store (snd (response_onRejected e (AxiosError c (Some r)) w)))"
    by (simp add: a ops)
  show "href (snd (response_onRejected e (AxiosError c (Some r)) w)) = href w @ [''/login'']"
    using assms(4) by (simp add: a refreshAccessToken_has_window refreshAccessToken_href ops)
  show "toasts (snd (response_onRejected e (AxiosError c (Some r)) w))
           = toasts w @ [Some ''Session expired. Please login again.'']"
    by (simp add: a refreshAccessToken_toasts ops)
qed

lemma matchRoute_login: "matchRoute ''/login'' = None"
  by (simp add: matchRoute_def routes_def segments_def match_segment_def)

lemma matchRoute_signin: "matchRoute ''/signin'' = Some Login"
  by (simp add: matchRoute_def routes_def segments_def match_segment_def)

text \<open>
  Claim C5 says the browser is redirected to the login view. The path both interceptors
  assign is \<^verbatim>\<open>/login\<close>. \<^verbatim>\<open>App.tsx\<close> mounts the login page at \<^verbatim>\<open>/signin\<close> (the path
  \<^verbatim>\<open>ProtectedRoute\<close> and the header's logout navigate to) and has no route for
  \<^verbatim>\<open>/login\<close>. The first run below is a refresh that fails before sending (the
  stored token is \<^verbatim>\<open>stale\<close> and the refresh is answered 401): the token is removed,
  the session is unauthenticated, the request is not sent, and one assignment is made.
  The second is a refresh that fails after a 401. In both the path assigned is
  \<^verbatim>\<open>/login\<close>, which matches no route.
\<close>

theorem refresh_failure_redirects_to_a_path_without_route:
  "fst (apiClient (server [answered 401]) get_images (browser (Some ''stale'')))
     = Inl (Error ''Session expired. Please login again.'')
   \<and> sent (snd (apiClient (server [answered 401]) get_images (browser (Some ''stale'')))) = [post_refresh]
   \<and> getItem ''accessToken'' (snd (apiClient (server [answered 401]) get_images (browser (Some ''stale'')))) = None
   \<and> \<not> isAuthenticated (store (snd (apiClient (server [answered 401]) get_images (browser (Some ''stale'')))))
   \<and> href (snd (apiClient (server [answered 401]) get_images (browser (Some ''stale'')))) = [''/login'']
   \<and> href (snd (apiClient (server [answered 401, answered 401]) get_images (browser (Some ''fresh'')))) = [''/login'']
   \<and> matchRoute ''/login'' = None
   \<and> matchRoute ''/signin'' = Some Login"
  by (simp add: client run scenario ops matchRoute_login matchRoute_signin)

subsection \<open>Logout\<close>

text \<open>
  \<^verbatim>\<open>logout\<close> awaits \<^verbatim>\<open>apiClient.post('/logout')\<close> outside any
  \<^verbatim>\<open>try\<close>: when that promise rejects, so does \<^verbatim>\<open>logout\<close>, and the four statements
  after it do not run. When it fulfils, the two keys \<^verbatim>\<open>accessToken\<close> and
  \<^verbatim>\<open>userEmail\<close> are removed and the session is reset; the key \<^verbatim>\<open>auth-store\<close> is
  removed and then written again by the \<^verbatim>\<open>set\<close> of the persisted store, with the
  reset session.
\<close>

lemma session_reset:
  "(s::session)\<lparr>isAuthenticated := False, email := None\<rparr> = \<lparr>isAuthenticated = False, email = None\<rparr>"
  by (cases s) simp

lemma logout_fulfilled:
  assumes "apiClient e (instance_config e POST ''/logout'' NoData) w = (Inr r, w1)"
  shows "fst (logout e w) = Inr ()"
    and "localStorage (snd (logout e w)) ''accessToken'' = None"
    and "localStorage (snd (logout e w)) ''userEmail'' = None"
    and "localStorage (snd (logout e w)) ''auth-store''
           = Some (stringify e \<lparr>isAuthenticated = False, email = None\<rparr>)"
    and "store (snd (logout e w)) = \<lparr>isAuthenticated = False, email = None\<rparr>"
  using assms by (simp_all add: logout_def ops session_reset)

lemma logout_rejected:
  assumes "apiClient e (instance_config e POST ''/logout'' NoData) w = (Inl err, w1)"
  shows "logout e w = (Inl err, w1)"
  using assms by (simp add: logout_def)

text \<open>
  Claim C1 says that logout clears the three keys and resets the session whether the
  remote call succeeds or rejects. Here the network does not answer: \<^verbatim>\<open>logout\<close>
  rejects with the axios error, and the three keys and the session are as they were.
\<close>

theorem logout_rejected_leaves_session_in_place:
  "fst (logout (server []) (browser (Some ''fresh'')))
     = Inl (AxiosError (post_logout\<lparr>Authorization := Some ''Bearer fresh''\<rparr>) None)
   \<and> localStorage (snd (logout (server []) (browser (Some ''fresh'')))) ''auth-store'' = Some ''{}''
   \<and> localStorage (snd (logout (server []) (browser (Some ''fresh'')))) ''accessToken'' = Some ''fresh''
   \<and> localStorage (snd (logout (server []) (browser (Some ''fresh'')))) ''userEmail'' = Some ''a@b.c''
   \<and> store (snd (logout (server []) (browser (Some ''fresh''))))
     = \<lparr>isAuthenticated = True, email = Some ''a@b.c''\<rparr>"
  by (simp add: logout_def client run scenario ops)

subsection \<open>The wrappers and the errors they catch\<close>

lemma handleAxiosError_toasts:
  "toasts (handleAxiosError err w) = toasts w @ [notification err]"
  by (simp add: handleAxiosError_def notification_def toast_error_def console_log_def)

lemma Signup_swallows:
  "swallowed (axios_post e (API_URI e @ ''/signup'') (UserData u) True w) (Signup e u w)"
  by (simp add: swallowed_def Signup_def split: prod.splits sum.splits)

lemma VerifyCode_swallows:
  "swallowed (axios_post e (API_URI e @ ''/verify-cache'') (VerifyData em code) False w) (VerifyCode e em code w)"
  by (simp add: swallowed_def VerifyCode_def split: prod.splits sum.splits option.splits)

lemma SignIn_swallows:
  "swallowed (axios_post e (API_URI e @ ''/signin'') (UserData u) True w) (SignIn e u w)"
  by (simp add: swallowed_def SignIn_def split: prod.splits sum.splits option.splits)

lemma forgotPassword_swallows:
  "swallowed (axios_post e (API_URI e @ ''/forgot-password'') (EmailData em) False w) (forgotPassword e em w)"
  by (simp add: swallowed_def forgotPassword_def split: prod.splits sum.splits)

lemma resetPassword_swallows:
  "swallowed (axios_post e (API_URI e @ ''/reset-password'') (ResetData code pw em) False w)
     (resetPassword e code pw em w)"
  by (simp add: swallowed_def resetPassword_def split: prod.splits sum.splits)

lemma getImages_swallows:
  "swallowed (apiClient e (instance_config e GET ''/images'' NoData) w) (getImages e w)"
  by (simp add: swallowed_def getImages_def split: prod.splits sum.splits)

lemma updateImageOrder_swallows:
  "swallowed (apiClient e (instance_config e POST ''/change-order'' (OrderData imageOrder)) w)
     (updateImageOrder e imageOrder w)"
  by (simp add: swallowed_def updateImageOrder_def split: prod.splits sum.splits)

lemma deleteImage_swallows:
  "swallowed (apiClient e (instance_config e DELETE (''/delete-image/'' @ ident) NoData) w)
     (deleteImage e ident w)"
  by (simp add: swallowed_def deleteImage_def split: prod.splits sum.splits)

lemma updateImage_swallows:
  "swallowed (apiClient e (instance_config e POST (''/update-image/'' @ ident) (Form fd)) w)
     (updateImage e ident fd w)"
  by (simp add: swallowed_def updateImage_def split: prod.splits sum.splits)

lemma uploadImage_rethrows:
  "rethrown (apiClient e (instance_config e POST ''/upload'' (Form fd)) w) (uploadImage e fd w)"
  by (simp add: rethrown_def uploadImage_def split: prod.splits sum.splits)

text \<open>
  Claim C10. Of the ten wrappers only \<^verbatim>\<open>uploadImage\<close> throws the error it caught, after
  \<^verbatim>\<open>handleAxiosError\<close> has shown the notification. \<^verbatim>\<open>Signup\<close>, \<^verbatim>\<open>VerifyCode\<close>,
  \<^verbatim>\<open>SignIn\<close>, \<^verbatim>\<open>forgotPassword\<close>, \<^verbatim>\<open>resetPassword\<close>, \<^verbatim>\<open>getImages\<close>,
  \<^verbatim>\<open>updateImageOrder\<close>, \<^verbatim>\<open>deleteImage\<close> and \<^verbatim>\<open>updateImage\<close> never throw: when
  their call rejects they show the notification and return \<^verbatim>\<open>undefined\<close>, whatever
  the error was. \<^verbatim>\<open>handleAxiosError\<close> shows exactly one notification.
\<close>

theorem only_uploadImage_rethrows:
  "rethrown (apiClient e (instance_config e POST ''/upload'' (Form fd)) w) (uploadImage e fd w)
   \<and> swallowed (axios_post e (API_URI e @ ''/signup'') (UserData u) True w) (Signup e u w)
   \<and> swallowed (axios_post e (API_URI e @ ''/verify-cache'') (VerifyData em code) False w) (VerifyCode e em code w)
   \<and> swallowed (axios_post e (API_URI e @ ''/signin'') (UserData u) True w) (SignIn e u w)
   \<and> swallowed (axios_post e (API_URI e @ ''/forgot-password'') (EmailData em) False w) (forgotPassword e em w)
   \<and> swallowed (axios_post e (API_URI e @ ''/reset-password'') (ResetData code pw em) False w)
        (resetPassword e code pw em w)
   \<and> swallowed (apiClient e (instance_config e GET ''/images'' NoData) w) (getImages e w)
   \<and> swallowed (apiClient e (instance_config e POST ''/change-order'' (OrderData imageOrder)) w)
        (updateImageOrder e imageOrder w)
   \<and> swallowed (apiClient e (instance_config e DELETE (''/delete-image/'' @ ident) NoData) w)
        (deleteImage e ident w)
   \<and> swallowed (apiClient e (instance_config e POST (''/update-image/'' @ ident) (Form fd)) w)
        (updateImage e ident fd w)
   \<and> toasts (handleAxiosError err w) = toasts w @ [notification err]"
  by (intro conjI uploadImage_rethrows Signup_swallows VerifyCode_swallows SignIn_swallows
        forgotPassword_swallows resetPassword_swallows getImages_swallows
        updateImageOrder_swallows deleteImage_swallows updateImage_swallows
        handleAxiosError_toasts)

text \<open>
  The theorem where the network does not answer (\<^verbatim>\<open>uploadImage\<close>, \<^verbatim>\<open>getImages\<close>) and
  where the server answers 500 (\<^verbatim>\<open>forgotPassword\<close>).
\<close>

theorem only_uploadImage_rethrows_witness:
  "fst (uploadImage (server []) [] (browser (Some ''fresh'')))
     = Inl (AxiosError ((instance_config (server []) POST ''/upload'' (Form []))\<lparr>Authorization := Some ''Bearer fresh''\<rparr>) None)
   \<and> toasts (snd (uploadImage (server []) [] (browser (Some ''fresh'')))) = [None]
   \<and> fst (getImages (server []) (browser (Some ''fresh''))) = Inr None
   \<and> toasts (snd (getImages (server []) (browser (Some ''fresh'')))) = [None]
   \<and> fst (forgotPassword (server [answered 500]) ''a@b.c'' (browser None)) = Inr None"
proof -
  let ?e = "server []"
  let ?f = "server [answered 500]"
  let ?w = "browser (Some ''fresh'')"
  let ?u = "instance_config ?e POST ''/upload'' (Form [])"
  let ?g = "instance_config ?e GET ''/images'' NoData"
  let ?E = "AxiosError (?u\<lparr>Authorization := Some ''Bearer fresh''\<rparr>) None"
  let ?G = "AxiosError (?g\<lparr>Authorization := Some ''Bearer fresh''\<rparr>) None"
  have "fst (apiClient ?e ?u ?w) = Inl ?E \<and> toasts (snd (apiClient ?e ?u ?w)) = []"
    by (simp add: client run scenario ops)
  then obtain w1 where a: "apiClient ?e ?u ?w = (Inl ?E, w1)" "toasts w1 = []"
    by (cases "apiClient ?e ?u ?w") auto
  have "fst (apiClient ?e ?g ?w) = Inl ?G \<and> toasts (snd (apiClient ?e ?g ?w)) = []"
    by (simp add: client run scenario ops)
  then obtain w2 where b: "apiClient ?e ?g ?w = (Inl ?G, w2)" "toasts w2 = []"
    by (cases "apiClient ?e ?g ?w") auto
  obtain err w3 where c: "axios_post ?f (API_URI ?f @ ''/forgot-password'') (EmailData ''a@b.c'') False (browser None)
           = (Inl err, w3)"
    by (simp add: axios_post_def run scenario ops)
  have n: "notification ?E = None" "notification ?G = None"
    by (simp_all add: notification_def isAxiosError_def error_message_def)
  have "rethrown (apiClient ?e ?u ?w) (uploadImage ?e [] ?w)"
    using only_uploadImage_rethrows [of ?e "[]" ?w] by (rule conjunct1)
  then have 1: "uploadImage ?e [] ?w = (Inl ?E, handleAxiosError ?E w1)"
    by (simp add: a rethrown_def)
  have "swallowed (apiClient ?e ?g ?w) (getImages ?e ?w)"
    using only_uploadImage_rethrows [of ?e "[]" ?w] by blast
  then have 2: "getImages ?e ?w = (Inr None, handleAxiosError ?G w2)"
    by (simp add: b swallowed_def)
  have "swallowed (axios_post ?f (API_URI ?f @ ''/forgot-password'') (EmailData ''a@b.c'') False (browser None))
          (forgotPassword ?f ''a@b.c'' (browser None))"
    using only_uploadImage_rethrows [of ?f _ "browser None" _ "''a@b.c''"] by blast
  then have 3: "fst (forgotPassword ?f ''a@b.c'' (browser None)) = Inr None"
    by (simp add: c swallowed_def)
  have 4: "toasts (handleAxiosError ?E w1) = toasts w1 @ [notification ?E]"
       "toasts (handleAxiosError ?G w2) = toasts w2 @ [notification ?G]"
    using only_uploadImage_rethrows [of ?e _ w1 _ _ _ _ _ _ ?E] only_uploadImage_rethrows [of ?e _ w2 _ _ _ _ _ _ ?G]
    by blast+
  from 1 2 3 4 a(2) b(2) n show ?thesis by (simp add: get_images_def)
qed

subsection \<open>The two examples of the specification\<close>

text \<open>
  A token with \<^verbatim>\<open>exp = now - 10\<close> and a call of \<^verbatim>\<open>GET /images\<close>: one call of
  \<^verbatim>\<open>/refresh-token\<close>, then one call of \<^verbatim>\<open>/images\<close> with the new bearer header.
\<close>

lemma example_expired_token:
  "fst (apiClient (server [granted ''newer'', answered 200]) get_images (browser (Some ''stale'')))
     = Inr \<lparr>status = 200, rdata = plain_body\<rparr>
   \<and> sent (snd (apiClient (server [granted ''newer'', answered 200]) get_images (browser (Some ''stale''))))
     = [post_refresh, get_images\<lparr>Authorization := Some ''Bearer newer''\<rparr>]"
  by (simp add: client run scenario ops)

text \<open>
  \<^verbatim>\<open>/images\<close> answers 401 once and the refresh succeeds: the resend succeeds, the
  caller gets the 200 response, and three requests are sent (images, refresh, images).
\<close>

lemma example_unauthorized_once:
  "fst (apiClient (server [answered 401, granted ''newer'', answered 200]) get_images (browser (Some ''fresh'')))
     = Inr \<lparr>status = 200, rdata = plain_body\<rparr>
   \<and> sent (snd (apiClient (server [answered 401, granted ''newer'', answered 200]) get_images (browser (Some ''fresh''))))
     = [get_images\<lparr>Authorization := Some ''Bearer fresh''\<rparr>,
        post_refresh,
        get_images\<lparr>retry := True, Authorization := Some ''Bearer newer''\<rparr>]"
  by (simp add: client run scenario ops)

end
